theory Spec2Isabelle
  imports Complex_Main
begin

section \<open>JavaScript values\<close>

text \<open>
  A JavaScript \<open>number\<close>: a real value, \<open>NaN\<close>, or one of the two infinities.
  The functions below only compare numbers with each other and with zero and take one
  difference of two liquidities, so the rounding of IEEE doubles is not modelled.
\<close>

datatype jsnum = Num real | NaN | PosInf | NegInf

text \<open>
  A value of type \<open>any\<close>, as an SDK call or a property read delivers it. An object
  is the list of its own properties in the order of \<open>Object.keys\<close>. \<open>Builtin\<close> is a
  member that an object inherits from \<open>Object.prototype\<close>: a function, or for
  \<open>__proto__\<close> the prototype object itself. Arrays are not modelled.
\<close>

datatype jsval =
    Undefined
  | Null
  | Bool bool
  | Number jsnum
  | Str string
  | Obj "(string \<times> jsval) list"
  | Builtin

type_synonym jsobject = "(string \<times> jsval) list"

text \<open>An awaited promise either rejects (the \<open>await\<close> throws) or resolves to a value.\<close>

datatype 'a outcome = Throws | Returns 'a

text \<open>The operator \<open>>\<close> on numbers: false as soon as one side is \<open>NaN\<close>.\<close>

fun js_gt :: "jsnum \<Rightarrow> jsnum \<Rightarrow> bool" where
  "js_gt (Num a) (Num b) = (a > b)"
| "js_gt NaN _ = False"
| "js_gt _ NaN = False"
| "js_gt PosInf PosInf = False"
| "js_gt PosInf _ = True"
| "js_gt _ PosInf = False"
| "js_gt NegInf _ = False"
| "js_gt _ NegInf = True"

text \<open>The operator \<open>-\<close> on numbers.\<close>

fun js_sub :: "jsnum \<Rightarrow> jsnum \<Rightarrow> jsnum" where
  "js_sub (Num a) (Num b) = Num (a - b)"
| "js_sub NaN _ = NaN"
| "js_sub _ NaN = NaN"
| "js_sub PosInf PosInf = NaN"
| "js_sub NegInf NegInf = NaN"
| "js_sub PosInf _ = PosInf"
| "js_sub NegInf _ = NegInf"
| "js_sub _ PosInf = NegInf"
| "js_sub _ NegInf = PosInf"

definition js_isNaN :: "jsnum \<Rightarrow> bool" where
  "js_isNaN n = (n = NaN)"

definition js_isFinite :: "jsnum \<Rightarrow> bool" where
  "js_isFinite n = (case n of Num _ \<Rightarrow> True | _ \<Rightarrow> False)"

text \<open>Truthiness, as \<open>if (v)\<close>, \<open>!v\<close> and \<open>a || b\<close> use it.\<close>

fun truthy :: "jsval \<Rightarrow> bool" where
  "truthy Undefined = False"
| "truthy Null = False"
| "truthy (Bool b) = b"
| "truthy (Number n) = (n \<noteq> Num 0 \<and> n \<noteq> NaN)"
| "truthy (Str s) = (s \<noteq> [])"
| "truthy (Obj _) = True"
| "truthy Builtin = True"

definition js_or :: "jsval \<Rightarrow> jsval \<Rightarrow> jsval" where
  "js_or a b = (if truthy a then a else b)"

text \<open>
  The names under which every object finds a member of \<open>Object.prototype\<close>.
\<close>

definition object_prototype_names :: "string list" where
  "object_prototype_names =
     [''constructor'', ''__defineGetter__'', ''__defineSetter__'', ''hasOwnProperty'',
      ''__lookupGetter__'', ''__lookupSetter__'', ''isPrototypeOf'', ''propertyIsEnumerable'',
      ''toString'', ''valueOf'', ''__proto__'', ''toLocaleString'']"

text \<open>
  Property read \<open>obj[k]\<close> on an object: an own property if there is one, else the
  member inherited under that name, else \<open>undefined\<close>.
\<close>

definition get_prop :: "jsobject \<Rightarrow> string \<Rightarrow> jsval" where
  "get_prop obj k =
     (case map_of obj k of
        Some v \<Rightarrow> v
      | None \<Rightarrow> if k \<in> set object_prototype_names then Builtin else Undefined)"

text \<open>
  Optional chaining \<open>data?.[k]\<close> on a value that is an object or \<open>null\<close>
  (\<open>None\<close>): undefined on \<open>null\<close>.
\<close>

definition get_prop_opt :: "jsobject option \<Rightarrow> string \<Rightarrow> jsval" where
  "get_prop_opt data k = (case data of None \<Rightarrow> Undefined | Some obj \<Rightarrow> get_prop obj k)"

definition object_keys :: "jsobject \<Rightarrow> string list" where
  "object_keys obj = map fst obj"

text \<open>
  \<open>obj[Object.keys(obj)[0]]\<close>: with no key, the index expression is \<open>undefined\<close> and
  the property read is that of the key \<open>"undefined"\<close>.
\<close>

definition first_key_prop :: "jsobject \<Rightarrow> jsval" where
  "first_key_prop obj =
     (case object_keys obj of [] \<Rightarrow> get_prop obj ''undefined'' | k # _ \<Rightarrow> get_prop obj k)"

text \<open>
  \<open>v?.price\<close> on any value: the property of an object; undefined on \<open>null\<close> and
  \<open>undefined\<close>, and on a primitive or an inherited member, none of which has a property
  of that name.
\<close>

fun price_prop :: "jsval \<Rightarrow> jsval" where
  "price_prop (Obj obj) = get_prop obj ''price''"
| "price_prop _ = Undefined"

section \<open>Utilities of price.service.ts\<close>

text \<open>\<open>coinType.split('::')[0]\<close>: the text before the first \<open>::\<close>.\<close>

fun split_head :: "string \<Rightarrow> string" where
  "split_head [] = []"
| "split_head [c] = [c]"
| "split_head (c # d # cs) =
     (if c = CHR '':'' \<and> d = CHR '':'' then [] else c # split_head (d # cs))"

definition extractContractAddress :: "string \<Rightarrow> string" where
  "extractContractAddress coinType =
     (let p = split_head coinType in if p \<noteq> [] then p else coinType)"

definition isValidPrice :: "jsval \<Rightarrow> bool" where
  "isValidPrice price =
     (case price of
        Number n \<Rightarrow> \<not> js_isNaN n \<and> js_isFinite n \<and> js_gt n (Num 0)
      | _ \<Rightarrow> False)"

text \<open>A value of type \<open>number | null\<close> seen as \<open>any\<close>.\<close>

fun nullable :: "jsnum option \<Rightarrow> jsval" where
  "nullable None = Null"
| "nullable (Some n) = Number n"

text \<open>\<open>if (isValidPrice(price)) return price; ... return null;\<close>\<close>

definition valid_or_null :: "jsval \<Rightarrow> jsnum option" where
  "valid_or_null price =
     (if isValidPrice price then (case price of Number n \<Rightarrow> Some n | _ \<Rightarrow> None) else None)"

subsection \<open>retryOperation\<close>

text \<open>
  The wrapped operation is a closure that may behave differently each time it is invoked:
  \<open>operation k\<close> is the outcome of its invocation number \<open>k\<close> (from 0). Its result
  type \<open>T\<close> is nullable, \<open>None\<close> being \<open>null\<close>. A run records what
  \<open>retryOperation\<close> returns, how often it invoked the operation, and the durations it
  passed to \<open>setTimeout\<close>, in order.
\<close>

record 'a retry_run =
  result :: "'a option"
  attempts :: nat
  delays :: "int list"

function retry_loop ::
  "(nat \<Rightarrow> 'a option outcome) \<Rightarrow> int \<Rightarrow> int \<Rightarrow> int \<Rightarrow> 'a retry_run" where
  "retry_loop operation maxRetries delay i =
     (if i < maxRetries then
        (case operation (nat i) of
           Returns v \<Rightarrow> \<lparr>result = v, attempts = 1, delays = []\<rparr>
         | Throws \<Rightarrow>
             if i = maxRetries - 1 then \<lparr>result = None, attempts = 1, delays = []\<rparr>
             else
               (let r = retry_loop operation maxRetries delay (i + 1)
                in \<lparr>result = result r, attempts = Suc (attempts r),
                    delays = (delay * (i + 1)) # delays r\<rparr>))
      else \<lparr>result = None, attempts = 0, delays = []\<rparr>)"
  by pat_completeness auto
termination
  by (relation "measure (\<lambda>(operation, maxRetries, delay, i). nat (maxRetries - i))") auto

declare retry_loop.simps [simp del]

definition retryOperation ::
  "(nat \<Rightarrow> 'a option outcome) \<Rightarrow> int \<Rightarrow> int \<Rightarrow> 'a retry_run" where
  "retryOperation operation maxRetries delay = retry_loop operation maxRetries delay 0"

text \<open>The default arguments \<open>maxRetries = 2\<close>, \<open>delay = 800\<close>.\<close>

definition retryOperation_default :: "(nat \<Rightarrow> 'a option outcome) \<Rightarrow> 'a retry_run" where
  "retryOperation_default operation = retryOperation operation 2 800"

section \<open>The outside world of one call\<close>

text \<open>
  An HTTP response: the \<open>ok\<close> flag and what \<open>await response.json()\<close> does. A body
  of the wrong shape on which the adapter's next property read would throw (\<open>data.pairs\<close>
  of \<open>null\<close>) is the same branch as a \<open>json()\<close> that throws.
\<close>

datatype 'a http = Response (ok: bool) (json: "'a outcome")

text \<open>
  \<open>GeckoTerminalResponse\<close>, reduced to the one path the adapter reads:
  the value of \<open>data?.data?.attributes?.price_usd\<close>, \<open>None\<close> when it is undefined or
  null.
\<close>

record GeckoTerminalResponse =
  gt_price_usd :: "string option"

text \<open>
  \<open>DexScreenerPair\<close>, with the fields \<open>getDexScreenerPrice\<close> reads.
  \<open>chainId\<close> is \<open>None\<close> when the property is missing or null;
  \<open>liquidity_usd\<close> is the value of \<open>p.liquidity?.usd\<close>, \<open>None\<close> when undefined.
\<close>

record DexScreenerPair =
  chainId :: "string option"
  dexId :: string
  priceUsd :: string
  liquidity_usd :: "jsnum option"

record DexScreenerResponse =
  pairs :: "DexScreenerPair list option"

text \<open>A row of the tokens table, as \<open>saveToken\<close> receives it and \<open>getToken\<close> returns it.\<close>

record TokenDB =
  coin_type :: string
  price_usd :: jsnum
  last_update :: int
  metadata :: string

type_synonym db = "string \<rightharpoonup> TokenDB"

text \<open>
  Everything one call of \<open>getTokenPrice\<close> reads from outside:
  whether the storage fails, the two readings of \<open>Date.now()\<close> (in \<open>getCachedPrice\<close>
  and in \<open>setCachedPrice\<close>), the built-in \<open>Number(string)\<close>, the 7k SDK, and the
  HTTP endpoints. An endpoint is indexed by the invocation number of the retried
  operation, by the position of the request inside that invocation, and by the text
  it is asked about. Three adapters (CoinGecko, Hop, DexScreener SUI-pair scan) are
  parameters: any function into their declared type \<open>number | null\<close>. Each of them
  returns through \<open>retryOperation\<close>, which never throws, and nothing proved below
  depends on how they compute their candidate. The body of an Aftermath response and
  the result of the SDK's \<open>getTokenPrices\<close> are an object, as the source's comment on
  the response format and the SDK's declared type \<open>Record<string, number>\<close> have it, or
  \<open>null\<close> (\<open>None\<close>).
\<close>

record world =
  db_read_fails :: bool
  db_write_fails :: bool
  now_read :: int
  now_write :: int
  js_Number :: "string \<Rightarrow> jsnum"
  sdk_getTokenPrice :: "string \<Rightarrow> jsval outcome"
  sdk_getTokenPrices :: "string list \<Rightarrow> jsobject option outcome"
  geckoterminal_fetch :: "nat \<Rightarrow> string \<Rightarrow> GeckoTerminalResponse http outcome"
  dexscreener_fetch :: "nat \<Rightarrow> nat \<Rightarrow> string \<Rightarrow> DexScreenerResponse http outcome"
  aftermath_fetch :: "nat \<Rightarrow> string \<Rightarrow> jsobject option http outcome"
  getCoinGeckoPrice :: "string \<Rightarrow> jsnum option"
  getHopAggregatorPrice :: "string \<Rightarrow> jsnum option"
  getDexScreenerViaSuiPrice :: "string \<Rightarrow> jsnum option"

section \<open>Cache\<close>

definition CACHE_DURATION :: int where
  "CACHE_DURATION = 5 * 60 * 1000"

text \<open>
  Modelled from the spec: \<open>DatabaseService.getToken\<close> (database.service.ts is not among
  the sources). Section 6 of the specification: a key/value-like store with
  \<open>getRecord(id)\<close>, read-after-write consistent; section 7: the storage may be
  unavailable on read.
\<close>

definition getToken :: "world \<Rightarrow> db \<Rightarrow> string \<Rightarrow> TokenDB option outcome" where
  "getToken w d tokenType = (if db_read_fails w then Throws else Returns (d tokenType))"

text \<open>
  Modelled from the spec: \<open>DatabaseService.saveToken\<close> (database.service.ts is not among
  the sources). Section 6 of the specification: \<open>upsertRecord(id, price, ts, metadata)\<close>;
  section 4.1: the upsert overwrites the prior record; section 7: the storage may be
  unavailable on write, and then nothing is stored.
\<close>

definition saveToken :: "world \<Rightarrow> db \<Rightarrow> TokenDB \<Rightarrow> db outcome" where
  "saveToken w d row = (if db_write_fails w then Throws else Returns (d(coin_type row \<mapsto> row)))"

definition getCachedPrice :: "world \<Rightarrow> db \<Rightarrow> string \<Rightarrow> jsnum option" where
  "getCachedPrice w d tokenType =
     (case getToken w d tokenType of
        Throws \<Rightarrow> None
      | Returns None \<Rightarrow> None
      | Returns (Some tokenData) \<Rightarrow>
          if now_read w - last_update tokenData > CACHE_DURATION then None
          else if price_usd tokenData = Num 0 then None
          else Some (price_usd tokenData))"

text \<open>The row \<open>setCachedPrice\<close> hands to \<open>saveToken\<close>.\<close>

definition cache_row :: "world \<Rightarrow> string \<Rightarrow> jsnum \<Rightarrow> TokenDB" where
  "cache_row w tokenType price =
     \<lparr>coin_type = tokenType, price_usd = price, last_update = now_write w, metadata = ''{}''\<rparr>"

definition setCachedPrice :: "world \<Rightarrow> db \<Rightarrow> string \<Rightarrow> jsnum \<Rightarrow> db" where
  "setCachedPrice w d tokenType price =
     (case saveToken w d (cache_row w tokenType price) of
        Throws \<Rightarrow> d
      | Returns d' \<Rightarrow> d')"

section \<open>Source adapters\<close>

subsection \<open>Source 1: 7k Protocol SDK\<close>

definition get7kPrice :: "world \<Rightarrow> string \<Rightarrow> jsnum option" where
  "get7kPrice w tokenType =
     (case sdk_getTokenPrice w tokenType of
        Throws \<Rightarrow> None
      | Returns price \<Rightarrow> valid_or_null price)"

subsection \<open>Source 2: GeckoTerminal\<close>

definition geckoTerminalOperation :: "world \<Rightarrow> string \<Rightarrow> nat \<Rightarrow> jsnum option outcome" where
  "geckoTerminalOperation w tokenType k =
     (case geckoterminal_fetch w k tokenType of
        Throws \<Rightarrow> Throws
      | Returns response \<Rightarrow>
          if \<not> ok response then Returns None
          else
            (case json response of
               Throws \<Rightarrow> Throws
             | Returns data \<Rightarrow>
                 (case gt_price_usd data of
                    None \<Rightarrow> Returns None
                  | Some priceStr \<Rightarrow>
                      if priceStr \<noteq> [] then Returns (valid_or_null (Number (js_Number w priceStr)))
                      else Returns None)))"

definition getGeckoTerminalRun :: "world \<Rightarrow> string \<Rightarrow> jsnum retry_run" where
  "getGeckoTerminalRun w tokenType = retryOperation_default (geckoTerminalOperation w tokenType)"

definition getGeckoTerminalPrice :: "world \<Rightarrow> string \<Rightarrow> jsnum option" where
  "getGeckoTerminalPrice w tokenType = result (getGeckoTerminalRun w tokenType)"

subsection \<open>Source 3: DexScreener\<close>

text \<open>
  \<open>Array.prototype.sort\<close> with a comparator: a stable sort; \<open>x\<close> goes behind \<open>y\<close>
  only when the comparator's value is greater than zero (a \<open>NaN\<close> counts as zero).
\<close>

fun insert_by :: "('a \<Rightarrow> 'a \<Rightarrow> jsnum) \<Rightarrow> 'a \<Rightarrow> 'a list \<Rightarrow> 'a list" where
  "insert_by cmp x [] = [x]"
| "insert_by cmp x (y # ys) =
     (if js_gt (cmp x y) (Num 0) then y # insert_by cmp x ys else x # y # ys)"

definition array_sort :: "('a \<Rightarrow> 'a \<Rightarrow> jsnum) \<Rightarrow> 'a list \<Rightarrow> 'a list" where
  "array_sort cmp xs = foldr (insert_by cmp) xs []"

text \<open>\<open>!data.pairs || data.pairs.length === 0\<close>\<close>

definition no_pairs :: "DexScreenerResponse \<Rightarrow> bool" where
  "no_pairs data = (case pairs data of None \<Rightarrow> True | Some ps \<Rightarrow> ps = [])"

text \<open>\<open>p.chainId === 'sui' || !p.chainId\<close>\<close>

definition on_sui_chain :: "DexScreenerPair \<Rightarrow> bool" where
  "on_sui_chain p = (case chainId p of None \<Rightarrow> True | Some c \<Rightarrow> c = ''sui'' \<or> c = [])"

text \<open>\<open>p.liquidity?.usd > 0\<close>\<close>

definition has_liquidity :: "DexScreenerPair \<Rightarrow> bool" where
  "has_liquidity p = (case liquidity_usd p of None \<Rightarrow> False | Some l \<Rightarrow> js_gt l (Num 0))"

text \<open>
  \<open>p.liquidity.usd\<close> of a pair that passed the filter (an undefined operand of \<open>-\<close>
  is \<open>NaN\<close>).
\<close>

definition liquidity_of :: "DexScreenerPair \<Rightarrow> jsnum" where
  "liquidity_of p = (case liquidity_usd p of None \<Rightarrow> NaN | Some l \<Rightarrow> l)"

text \<open>\<open>(a, b) => b.liquidity.usd - a.liquidity.usd\<close>\<close>

definition by_liquidity_desc :: "DexScreenerPair \<Rightarrow> DexScreenerPair \<Rightarrow> jsnum" where
  "by_liquidity_desc a b = js_sub (liquidity_of b) (liquidity_of a)"

text \<open>
  The second half of the operation: filter, sort, take the first pair, validate its price.
  Reading \<open>priceUsd\<close> of an undefined \<open>bestPool\<close> would throw.
\<close>

definition dexScreenerSelect :: "world \<Rightarrow> DexScreenerPair list \<Rightarrow> jsnum option outcome" where
  "dexScreenerSelect w ps =
     (let suiPairs = filter has_liquidity (filter on_sui_chain ps)
      in if suiPairs = [] then Returns None
         else
           (case array_sort by_liquidity_desc suiPairs of
              [] \<Rightarrow> Throws
            | bestPool # _ \<Rightarrow> Returns (valid_or_null (Number (js_Number w (priceUsd bestPool))))))"

definition dexScreenerOperation :: "world \<Rightarrow> string \<Rightarrow> nat \<Rightarrow> jsnum option outcome" where
  "dexScreenerOperation w tokenType k =
     (case dexscreener_fetch w k 0 tokenType of
        Throws \<Rightarrow> Throws
      | Returns response \<Rightarrow>
          if \<not> ok response then Returns None
          else
            (case json response of
               Throws \<Rightarrow> Throws
             | Returns data \<Rightarrow>
                 if no_pairs data then
                   (case dexscreener_fetch w k 1 (extractContractAddress tokenType) of
                      Throws \<Rightarrow> Throws
                    | Returns response2 \<Rightarrow>
                        if \<not> ok response2 then Returns None
                        else
                          (case json response2 of
                             Throws \<Rightarrow> Throws
                           | Returns data2 \<Rightarrow>
                               (case pairs data2 of
                                  None \<Rightarrow> Returns None
                                | Some ps2 \<Rightarrow>
                                    if ps2 = [] then Returns None
                                    else dexScreenerSelect w ps2)))
                 else
                   (case pairs data of
                      None \<Rightarrow> Returns None
                    | Some ps \<Rightarrow> dexScreenerSelect w ps)))"

definition getDexScreenerPrice :: "world \<Rightarrow> string \<Rightarrow> jsnum option" where
  "getDexScreenerPrice w tokenType =
     result (retryOperation_default (dexScreenerOperation w tokenType))"

subsection \<open>Source 6: Aftermath Finance API\<close>

text \<open>\<open>data?.[Object.keys(data)[0]]\<close>\<close>

definition first_key_prop_opt :: "jsobject option \<Rightarrow> jsval" where
  "first_key_prop_opt data = (case data of None \<Rightarrow> Undefined | Some obj \<Rightarrow> first_key_prop obj)"

text \<open>The candidate the adapter reads out of the parsed body.\<close>

definition aftermathCandidate :: "jsobject option \<Rightarrow> string \<Rightarrow> jsval" where
  "aftermathCandidate data tokenType =
     (let priceInfo = js_or (get_prop_opt data tokenType) (first_key_prop_opt data)
      in price_prop priceInfo)"

text \<open>The body of the operation is one \<open>try\<close> block whose \<open>catch\<close> falls through to \<open>return null\<close>.\<close>

definition aftermathOperation :: "world \<Rightarrow> string \<Rightarrow> nat \<Rightarrow> jsnum option outcome" where
  "aftermathOperation w tokenType k =
     (case aftermath_fetch w k tokenType of
        Throws \<Rightarrow> Returns None
      | Returns response \<Rightarrow>
          if \<not> ok response then Returns None
          else
            (case json response of
               Throws \<Rightarrow> Returns None
             | Returns data \<Rightarrow> Returns (valid_or_null (aftermathCandidate data tokenType))))"

definition getAftermathPrice :: "world \<Rightarrow> string \<Rightarrow> jsnum option" where
  "getAftermathPrice w tokenType = result (retryOperation (aftermathOperation w tokenType) 1 800)"

subsection \<open>Source 7: 7k Protocol getTokenPrices (batch)\<close>

definition batchCandidate :: "jsobject \<Rightarrow> string \<Rightarrow> jsval" where
  "batchCandidate priceMap tokenType = js_or (get_prop priceMap tokenType) (first_key_prop priceMap)"

text \<open>\<open>if (prices)\<close>: an object is truthy, \<open>null\<close> is not.\<close>

definition get7kBatchPrice :: "world \<Rightarrow> string \<Rightarrow> jsnum option" where
  "get7kBatchPrice w tokenType =
     (case sdk_getTokenPrices w [tokenType] of
        Throws \<Rightarrow> None
      | Returns prices \<Rightarrow>
          (case prices of
             None \<Rightarrow> None
           | Some priceMap \<Rightarrow> valid_or_null (batchCandidate priceMap tokenType)))"

section \<open>getTokenPrice\<close>

datatype source =
    Src7k
  | SrcGeckoTerminal
  | SrcDexScreener
  | SrcCoinGecko
  | SrcHop
  | SrcAftermath
  | Src7kBatch
  | SrcDexScreenerViaSui

text \<open>
  What a call of \<open>getTokenPrice\<close> does: the value it returns (\<open>None\<close> is \<open>null\<close>),
  the table afterwards, the adapters it invoked, each with its argument, in order, and
  the rows it handed to \<open>saveToken\<close>.
\<close>

record resolution =
  ret :: "jsnum option"
  store :: db
  calls :: "(source \<times> string) list"
  puts :: "TokenDB list"

text \<open>
  One step of the chain, \<open>if (!isValidPrice(price)) price = await adapter(arg)\<close>, on
  the current price and the adapters invoked so far.
\<close>

definition or_else ::
  "jsnum option \<times> (source \<times> string) list \<Rightarrow> source \<times> string \<Rightarrow> jsnum option
     \<Rightarrow> jsnum option \<times> (source \<times> string) list" where
  "or_else st call candidate =
     (case st of (price, tr) \<Rightarrow>
        if \<not> isValidPrice (nullable price) then (candidate, tr @ [call]) else (price, tr))"

text \<open>
  The end of both chains: \<open>if (isValidPrice(price)) { await setCachedPrice(tokenType, price!);
  return price; } return null;\<close>
\<close>

definition cache_and_return ::
  "world \<Rightarrow> db \<Rightarrow> string \<Rightarrow> jsnum option \<times> (source \<times> string) list \<Rightarrow> resolution" where
  "cache_and_return w d tokenType st =
     (case st of
        (Some price, tr) \<Rightarrow>
          if isValidPrice (Number price) then
            \<lparr>ret = Some price, store = setCachedPrice w d tokenType price, calls = tr,
             puts = [cache_row w tokenType price]\<rparr>
          else \<lparr>ret = None, store = d, calls = tr, puts = []\<rparr>
      | (None, tr) \<Rightarrow> \<lparr>ret = None, store = d, calls = tr, puts = []\<rparr>)"

text \<open>
  Every callee catches its own errors, so the outer \<open>try\<close>/\<open>catch\<close> of the source
  has nothing to catch here.
\<close>

definition getTokenPrice :: "world \<Rightarrow> db \<Rightarrow> string \<Rightarrow> resolution" where
  "getTokenPrice w d tokenType =
     (case getCachedPrice w d tokenType of
        Some cachedPrice \<Rightarrow> \<lparr>ret = Some cachedPrice, store = d, calls = [], puts = []\<rparr>
      | None \<Rightarrow>
          if tokenType = ''0x2::sui::SUI'' then
            cache_and_return w d tokenType
              (or_else
                (or_else
                  (or_else (getCoinGeckoPrice w ''sui'', [(SrcCoinGecko, ''sui'')])
                    (Src7k, tokenType) (get7kPrice w tokenType))
                  (SrcGeckoTerminal, tokenType) (getGeckoTerminalPrice w tokenType))
                (SrcDexScreener, tokenType) (getDexScreenerPrice w tokenType))
          else
            cache_and_return w d tokenType
              (or_else
                (or_else
                  (or_else
                    (or_else
                      (or_else
                        (or_else
                          (or_else (get7kPrice w tokenType, [(Src7k, tokenType)])
                            (SrcGeckoTerminal, tokenType) (getGeckoTerminalPrice w tokenType))
                          (SrcDexScreener, tokenType) (getDexScreenerPrice w tokenType))
                        (SrcCoinGecko, tokenType) (getCoinGeckoPrice w tokenType))
                      (SrcAftermath, tokenType) (getAftermathPrice w tokenType))
                    (SrcHop, tokenType) (getHopAggregatorPrice w tokenType))
                  (Src7kBatch, tokenType) (get7kBatchPrice w tokenType))
                (SrcDexScreenerViaSui, tokenType) (getDexScreenerViaSuiPrice w tokenType)))"

section \<open>The policy as the specification words it\<close>

text \<open>
  "Calls adapters strictly in policy order and stops at the first Valid result": given the
  adapters of a policy in order, each with the candidate it yields, the price resolved
  and the adapters invoked.
\<close>

fun first_valid ::
  "((source \<times> string) \<times> jsnum option) list \<Rightarrow> jsnum option \<times> (source \<times> string) list" where
  "first_valid [] = (None, [])"
| "first_valid ((call, candidate) # rest) =
     (if isValidPrice (nullable candidate) then (candidate, [call])
      else (case first_valid rest of (price, tr) \<Rightarrow> (price, call # tr)))"

text \<open>The order of section 4.5 of the specification for a generic identifier, sources 1 to 8.\<close>

definition spec_policy_order :: "source list" where
  "spec_policy_order =
     [Src7k, SrcGeckoTerminal, SrcDexScreener, SrcCoinGecko, SrcHop, SrcAftermath,
      Src7kBatch, SrcDexScreenerViaSui]"

text \<open>The order in which the body of \<open>getTokenPrice\<close> lists the adapters.\<close>

definition code_policy_order :: "source list" where
  "code_policy_order =
     [Src7k, SrcGeckoTerminal, SrcDexScreener, SrcCoinGecko, SrcAftermath, SrcHop,
      Src7kBatch, SrcDexScreenerViaSui]"

text \<open>The adapter that stands for a source, applied to an identifier.\<close>

fun adapter :: "world \<Rightarrow> source \<Rightarrow> string \<Rightarrow> jsnum option" where
  "adapter w Src7k = get7kPrice w"
| "adapter w SrcGeckoTerminal = getGeckoTerminalPrice w"
| "adapter w SrcDexScreener = getDexScreenerPrice w"
| "adapter w SrcCoinGecko = getCoinGeckoPrice w"
| "adapter w SrcHop = getHopAggregatorPrice w"
| "adapter w SrcAftermath = getAftermathPrice w"
| "adapter w Src7kBatch = get7kBatchPrice w"
| "adapter w SrcDexScreenerViaSui = getDexScreenerViaSuiPrice w"

definition chain_of ::
  "world \<Rightarrow> (source \<times> string) list \<Rightarrow> ((source \<times> string) \<times> jsnum option) list" where
  "chain_of w cs = map (\<lambda>(s, arg). ((s, arg), adapter w s arg)) cs"

text \<open>The base asset's chain: the aggregator by known ID, then sources 1, 2 and 3.\<close>

definition base_policy :: "string \<Rightarrow> (source \<times> string) list" where
  "base_policy tokenType =
     [(SrcCoinGecko, ''sui''), (Src7k, tokenType), (SrcGeckoTerminal, tokenType),
      (SrcDexScreener, tokenType)]"

text \<open>
  The pair search as section 4.5 of the specification words it: among the returned pairs,
  filter to the expected network and positive liquidity, then select the pair with the
  highest liquidity; if none match, scan all returned pairs for any usable price.
\<close>

fun highest_liquidity :: "DexScreenerPair \<Rightarrow> DexScreenerPair list \<Rightarrow> DexScreenerPair" where
  "highest_liquidity best [] = best"
| "highest_liquidity best (p # ps) =
     highest_liquidity (if js_gt (liquidity_of p) (liquidity_of best) then p else best) ps"

definition spec_pair_search :: "world \<Rightarrow> DexScreenerPair list \<Rightarrow> jsnum option" where
  "spec_pair_search w ps =
     (case filter (\<lambda>p. on_sui_chain p \<and> has_liquidity p) ps of
        b # rest \<Rightarrow> valid_or_null (Number (js_Number w (priceUsd (highest_liquidity b rest))))
      | [] \<Rightarrow>
          (case filter (\<lambda>p. isValidPrice (Number (js_Number w (priceUsd p)))) ps of
             [] \<Rightarrow> None
           | p # _ \<Rightarrow> Some (js_Number w (priceUsd p))))"

text \<open>The chain \<open>getTokenPrice\<close> walks for an identifier, in the order of its body.\<close>

definition policy_for :: "string \<Rightarrow> (source \<times> string) list" where
  "policy_for tokenType =
     (if tokenType = ''0x2::sui::SUI'' then base_policy tokenType
      else map (\<lambda>s. (s, tokenType)) code_policy_order)"

text \<open>The invoked adapters are an initial segment of an order.\<close>

definition follows_order :: "source list \<Rightarrow> resolution \<Rightarrow> bool" where
  "follows_order order r = (map fst (calls r) = take (length (calls r)) order)"

text \<open>
  The freshness test of section 4.1 of the specification: a record exists, its price is
  strictly greater than zero, and \<open>now - lastUpdated \<le> ttl\<close>.
\<close>

definition spec_isFresh :: "db \<Rightarrow> int \<Rightarrow> string \<Rightarrow> int \<Rightarrow> bool" where
  "spec_isFresh d now identifier ttl =
     (case d identifier of
        None \<Rightarrow> False
      | Some r \<Rightarrow> js_gt (price_usd r) (Num 0) \<and> now - last_update r \<le> ttl)"

text \<open>
  The resolution that ends a chain whose outcome is a valid price, or none, after the
  adapters \<open>tr\<close>: a valid price is handed to \<open>setCachedPrice\<close> and returned.
\<close>

definition resolved ::
  "world \<Rightarrow> db \<Rightarrow> string \<Rightarrow> jsnum option \<times> (source \<times> string) list \<Rightarrow> resolution" where
  "resolved w d tokenType st =
     (case st of
        (Some price, tr) \<Rightarrow>
          \<lparr>ret = Some price, store = setCachedPrice w d tokenType price, calls = tr,
           puts = [cache_row w tokenType price]\<rparr>
      | (None, tr) \<Rightarrow> \<lparr>ret = None, store = d, calls = tr, puts = []\<rparr>)"

section \<open>Concrete worlds\<close>

text \<open>The storage works, the clock reads 1000000 and then 1000500, and no source answers.\<close>

definition quiet_world :: world where
  "quiet_world =
     \<lparr>db_read_fails = False, db_write_fails = False,
      now_read = 1000000, now_write = 1000500,
      js_Number = (\<lambda>s. NaN),
      sdk_getTokenPrice = (\<lambda>t. Throws),
      sdk_getTokenPrices = (\<lambda>ts. Throws),
      geckoterminal_fetch = (\<lambda>k t. Throws),
      dexscreener_fetch = (\<lambda>k j q. Throws),
      aftermath_fetch = (\<lambda>k t. Throws),
      getCoinGeckoPrice = (\<lambda>t. None),
      getHopAggregatorPrice = (\<lambda>t. None),
      getDexScreenerViaSuiPrice = (\<lambda>t. None)\<rparr>"

text \<open>Hop would quote 2 and Aftermath reports 3 for the identifier asked about.\<close>

definition hop_and_aftermath_world :: world where
  "hop_and_aftermath_world =
     quiet_world
       \<lparr>aftermath_fetch :=
          (\<lambda>k t. Returns (Response True
             (Returns (Some [(''0xabc::mod::TOK'', Obj [(''price'', Number (Num 3))])])))),
        getHopAggregatorPrice := (\<lambda>t. Some (Num 2))\<rparr>"

text \<open>CoinGecko knows the ID \<open>sui\<close> and nothing else.\<close>

definition coingecko_sui_world :: world where
  "coingecko_sui_world =
     quiet_world \<lparr>getCoinGeckoPrice := (\<lambda>t. if t = ''sui'' then Some (Num 1.23) else None)\<rparr>"

text \<open>The storage fails on read and on write; the 7k SDK prices every identifier at 5.\<close>

definition broken_storage_world :: world where
  "broken_storage_world =
     quiet_world \<lparr>db_read_fails := True, db_write_fails := True,
                  sdk_getTokenPrice := (\<lambda>t. Returns (Number (Num 5)))\<rparr>"

text \<open>Tables of one row for \<open>0xabc::mod::TOK\<close>; \<open>quiet_world\<close> reads the clock at 1000000.\<close>

definition fresh_db :: db where
  "fresh_db =
     [''0xabc::mod::TOK'' \<mapsto>
        \<lparr>coin_type = ''0xabc::mod::TOK'', price_usd = Num 4, last_update = 940000,
         metadata = ''{}''\<rparr>]"

definition stale_db :: db where
  "stale_db =
     [''0xabc::mod::TOK'' \<mapsto>
        \<lparr>coin_type = ''0xabc::mod::TOK'', price_usd = Num 4, last_update = 0,
         metadata = ''{}''\<rparr>]"

definition negative_price_db :: db where
  "negative_price_db =
     [''0xabc::mod::TOK'' \<mapsto>
        \<lparr>coin_type = ''0xabc::mod::TOK'', price_usd = Num (- 1), last_update = 940000,
         metadata = ''{}''\<rparr>]"

definition negative_two_db :: db where
  "negative_two_db =
     [''0xdef::mod::TOK'' \<mapsto>
        \<lparr>coin_type = ''0xdef::mod::TOK'', price_usd = Num (- 2), last_update = 999000,
         metadata = ''{}''\<rparr>]"

text \<open>GeckoTerminal answers every request with a status that is not OK.\<close>

definition gecko_not_ok_world :: world where
  "gecko_not_ok_world =
     quiet_world \<lparr>geckoterminal_fetch := (\<lambda>k t. Returns (Response False Throws))\<rparr>"

text \<open>Aftermath answers with a body whose only key is another identifier, priced at 7.\<close>

definition aftermath_other_key_world :: world where
  "aftermath_other_key_world =
     quiet_world
       \<lparr>aftermath_fetch :=
          (\<lambda>k t. Returns (Response True
             (Returns (Some [(''0xfff::other::OTHER'', Obj [(''price'', Number (Num 7))])]))))\<rparr>"

text \<open>The 7k batch call answers with a map whose only key is another identifier, priced at 9.\<close>

definition batch_other_key_world :: world where
  "batch_other_key_world =
     quiet_world
       \<lparr>sdk_getTokenPrices :=
          (\<lambda>ts. Returns (Some [(''0xfff::other::OTHER'', Number (Num 9))]))\<rparr>"

text \<open>Three pairs, and a \<open>Number\<close> that reads the two price strings they carry.\<close>

definition pair_low :: DexScreenerPair where
  "pair_low =
     \<lparr>chainId = Some ''sui'', dexId = ''cetus'', priceUsd = ''1.5'',
      liquidity_usd = Some (Num 1000)\<rparr>"

definition pair_high :: DexScreenerPair where
  "pair_high =
     \<lparr>chainId = Some ''sui'', dexId = ''turbos'', priceUsd = ''2.5'',
      liquidity_usd = Some (Num 5000)\<rparr>"

definition pair_elsewhere :: DexScreenerPair where
  "pair_elsewhere =
     \<lparr>chainId = Some ''ethereum'', dexId = ''uniswap'', priceUsd = ''2.5'',
      liquidity_usd = Some (Num 1000)\<rparr>"

definition read_decimal :: "string \<Rightarrow> jsnum" where
  "read_decimal s = (if s = ''1.5'' then Num 1.5 else if s = ''2.5'' then Num 2.5 else NaN)"

text \<open>DexScreener knows two pairs on the expected network for the full identifier.\<close>

definition two_pairs_world :: world where
  "two_pairs_world =
     quiet_world
       \<lparr>js_Number := read_decimal,
        dexscreener_fetch :=
          (\<lambda>k j q. if q = ''0xabc::mod::TOK''
                    then Returns (Response True (Returns \<lparr>pairs = Some [pair_low, pair_high]\<rparr>))
                    else Throws)\<rparr>"

text \<open>DexScreener knows the two pairs for the contract address only.\<close>

definition contract_only_world :: world where
  "contract_only_world =
     quiet_world
       \<lparr>js_Number := read_decimal,
        dexscreener_fetch :=
          (\<lambda>k j q. if q = ''0xabc''
                    then Returns (Response True (Returns \<lparr>pairs = Some [pair_high, pair_low]\<rparr>))
                    else Returns (Response True (Returns \<lparr>pairs = None\<rparr>)))\<rparr>"

text \<open>DexScreener knows one pair, on another network, with a usable price.\<close>

definition elsewhere_world :: world where
  "elsewhere_world =
     quiet_world
       \<lparr>js_Number := read_decimal,
        dexscreener_fetch :=
          (\<lambda>k j q. Returns (Response True (Returns \<lparr>pairs = Some [pair_elsewhere]\<rparr>)))\<rparr>"

section \<open>Properties of retryOperation\<close>

lemma retry_loop_none:
  "\<not> i < maxRetries \<Longrightarrow>
   retry_loop operation maxRetries delay i = \<lparr>result = None, attempts = 0, delays = []\<rparr>"
  by (subst retry_loop.simps) simp

lemma retry_loop_returns:
  "i < maxRetries \<Longrightarrow> operation (nat i) = Returns v \<Longrightarrow>
   retry_loop operation maxRetries delay i = \<lparr>result = v, attempts = 1, delays = []\<rparr>"
  by (subst retry_loop.simps) simp

lemma retry_loop_last:
  "i < maxRetries \<Longrightarrow> operation (nat i) = Throws \<Longrightarrow> i = maxRetries - 1 \<Longrightarrow>
   retry_loop operation maxRetries delay i = \<lparr>result = None, attempts = 1, delays = []\<rparr>"
  by (subst retry_loop.simps) simp

lemma retry_loop_again:
  "i < maxRetries \<Longrightarrow> operation (nat i) = Throws \<Longrightarrow> i \<noteq> maxRetries - 1 \<Longrightarrow>
   retry_loop operation maxRetries delay i =
     \<lparr>result = result (retry_loop operation maxRetries delay (i + 1)),
      attempts = Suc (attempts (retry_loop operation maxRetries delay (i + 1))),
      delays = (delay * (i + 1)) # delays (retry_loop operation maxRetries delay (i + 1))\<rparr>"
  by (subst retry_loop.simps) (simp add: Let_def)

lemma retry_loop_attempts_pos:
  "i < maxRetries \<Longrightarrow> 1 \<le> attempts (retry_loop operation maxRetries delay i)"
  by (cases "operation (nat i)"; cases "i = maxRetries - 1")
     (simp_all add: retry_loop_returns retry_loop_last retry_loop_again)

lemma retry_loop_attempts_le:
  "int (attempts (retry_loop operation maxRetries delay i)) \<le> max 0 (maxRetries - i)"
proof (induction operation maxRetries delay i rule: retry_loop.induct)
  case (1 operation maxRetries delay i)
  show ?case
  proof (cases "i < maxRetries")
    case False
    then show ?thesis by (simp add: retry_loop_none)
  next
    case lt: True
    show ?thesis
    proof (cases "operation (nat i)")
      case (Returns v)
      with lt show ?thesis by (simp add: retry_loop_returns)
    next
      case Throws
      show ?thesis
      proof (cases "i = maxRetries - 1")
        case True
        with lt Throws show ?thesis by (simp add: retry_loop_last)
      next
        case False
        with lt Throws "1.IH"
        have "int (attempts (retry_loop operation maxRetries delay (i + 1))) \<le> max 0 (maxRetries - (i + 1))"
          by simp
        with lt Throws False show ?thesis
          by (simp add: retry_loop_again)
      qed
    qed
  qed
qed

lemma upt_shift_delays:
  assumes "1 \<le> n"
  shows "map (\<lambda>k. delay * (i + int k)) [1..<Suc n] =
           (delay * (i + 1)) # map (\<lambda>k. delay * (i + 1 + int k)) [1..<n]"
proof -
  have "[Suc 0..<Suc n] = Suc 0 # map Suc [Suc 0..<n]"
    using assms by (simp add: map_Suc_upt upt_conv_Cons del: upt_Suc)
  then show ?thesis
    by (simp add: comp_def algebra_simps del: upt_Suc)
qed

lemma retry_loop_delays:
  "delays (retry_loop operation maxRetries delay i) =
     map (\<lambda>k. delay * (i + int k)) [1..<attempts (retry_loop operation maxRetries delay i)]"
proof (induction operation maxRetries delay i rule: retry_loop.induct)
  case (1 operation maxRetries delay i)
  show ?case
  proof (cases "i < maxRetries")
    case False
    then show ?thesis by (simp add: retry_loop_none)
  next
    case lt: True
    show ?thesis
    proof (cases "operation (nat i)")
      case (Returns v)
      with lt show ?thesis by (simp add: retry_loop_returns)
    next
      case Throws
      show ?thesis
      proof (cases "i = maxRetries - 1")
        case True
        with lt Throws show ?thesis by (simp add: retry_loop_last)
      next
        case False
        let ?r = "retry_loop operation maxRetries delay (i + 1)"
        from lt Throws False "1.IH"
        have ih: "delays ?r = map (\<lambda>k. delay * (i + 1 + int k)) [1..<attempts ?r]"
          by simp
        have pos: "1 \<le> attempts ?r"
          using lt False by (intro retry_loop_attempts_pos) simp
        from ih upt_shift_delays [OF pos, of delay i] lt Throws False show ?thesis
          by (simp add: retry_loop_again del: upt_Suc)
      qed
    qed
  qed
qed

lemma retry_loop_all_throw:
  "(\<And>k. i \<le> k \<Longrightarrow> k < maxRetries \<Longrightarrow> operation (nat k) = Throws) \<Longrightarrow>
   result (retry_loop operation maxRetries delay i) = None \<and>
   int (attempts (retry_loop operation maxRetries delay i)) = max 0 (maxRetries - i)"
proof (induction operation maxRetries delay i rule: retry_loop.induct)
  case (1 operation maxRetries delay i)
  show ?case
  proof (cases "i < maxRetries")
    case False
    then show ?thesis by (simp add: retry_loop_none)
  next
    case lt: True
    with "1.prems" [of i] have thr: "operation (nat i) = Throws" by simp
    show ?thesis
    proof (cases "i = maxRetries - 1")
      case True
      with lt thr show ?thesis by (simp add: retry_loop_last)
    next
      case False
      have "result (retry_loop operation maxRetries delay (i + 1)) = None \<and>
            int (attempts (retry_loop operation maxRetries delay (i + 1))) = max 0 (maxRetries - (i + 1))"
        using "1.IH" [OF lt thr False] "1.prems" by simp
      with lt thr False show ?thesis
        by (simp add: retry_loop_again)
    qed
  qed
qed

lemma retry_once_then_ok:
  "operation 0 = Throws \<Longrightarrow> operation 1 = Returns v \<Longrightarrow>
   retryOperation operation 2 delay = \<lparr>result = v, attempts = 2, delays = [delay]\<rparr>"
  by (simp add: retryOperation_def retry_loop_again [of 0 2] retry_loop_returns [of 1 2])

text \<open>
  Claim C5. \<open>retryOperation\<close> invokes the operation at most \<open>maxRetries\<close> times
  (2 by default); after the failed attempt number \<open>k\<close> (counted from 1) that is not
  the last one it waits \<open>delay * k\<close> before the next attempt, so the waits are
  \<open>delay\<close>, \<open>2 * delay\<close>, ... and there is one wait less than there are attempts;
  when every attempt up to the last one throws it returns \<open>null\<close> after
  \<open>maxRetries\<close> attempts (it returns a value in every case, it never throws); and an
  operation that throws once and then resolves is, with \<open>maxRetries = 2\<close>, answered with
  the resolved value after one wait of \<open>delay\<close>.
\<close>

theorem retryOperation_bounded_linear_backoff:
  "int (attempts (retryOperation operation maxRetries delay)) \<le> max 0 maxRetries
   \<and> delays (retryOperation operation maxRetries delay) =
       map (\<lambda>k. delay * int k) [1..<attempts (retryOperation operation maxRetries delay)]
   \<and> ((\<forall>k. int k < maxRetries \<longrightarrow> operation k = Throws) \<longrightarrow>
        result (retryOperation operation maxRetries delay) = None
        \<and> int (attempts (retryOperation operation maxRetries delay)) = max 0 maxRetries)
   \<and> (operation 0 = Throws \<and> operation 1 = Returns v \<longrightarrow>
        retryOperation operation 2 delay = \<lparr>result = v, attempts = 2, delays = [delay]\<rparr>)
   \<and> retryOperation_default operation = retryOperation operation 2 800"
proof (intro conjI impI)
  show "int (attempts (retryOperation operation maxRetries delay)) \<le> max 0 maxRetries"
    using retry_loop_attempts_le [of operation maxRetries delay 0]
    by (simp add: retryOperation_def)
  show "delays (retryOperation operation maxRetries delay) =
       map (\<lambda>k. delay * int k) [1..<attempts (retryOperation operation maxRetries delay)]"
    using retry_loop_delays [of operation maxRetries delay 0]
    by (simp add: retryOperation_def)
  show "retryOperation_default operation = retryOperation operation 2 800"
    by (simp add: retryOperation_default_def)
next
  assume all: "\<forall>k. int k < maxRetries \<longrightarrow> operation k = Throws"
  have "result (retry_loop operation maxRetries delay 0) = None \<and>
        int (attempts (retry_loop operation maxRetries delay 0)) = max 0 (maxRetries - 0)"
  proof (rule retry_loop_all_throw)
    fix k :: int assume "0 \<le> k" "k < maxRetries"
    with all show "operation (nat k) = Throws" by simp
  qed
  then show "result (retryOperation operation maxRetries delay) = None"
    and "int (attempts (retryOperation operation maxRetries delay)) = max 0 maxRetries"
    by (simp_all add: retryOperation_def)
next
  assume "operation 0 = Throws \<and> operation 1 = Returns v"
  then show "retryOperation operation 2 delay = \<lparr>result = v, attempts = 2, delays = [delay]\<rparr>"
    by (simp add: retry_once_then_ok)
qed

theorem retryOperation_bounded_linear_backoff_witness:
  "retryOperation (\<lambda>k. Throws :: int option outcome) 3 800
       = \<lparr>result = None, attempts = 3, delays = [800, 1600]\<rparr>
   \<and> retryOperation (\<lambda>k. if k = 0 then Throws else Returns (Some (5::int))) 2 800
       = \<lparr>result = Some 5, attempts = 2, delays = [800]\<rparr>"
proof -
  let ?f = "\<lambda>k::nat. Throws :: int option outcome"
  let ?g = "\<lambda>k::nat. if k = 0 then Throws else Returns (Some (5::int))"
  have a: "\<forall>k. int k < 3 \<longrightarrow> ?f k = Throws" by simp
  have g: "?g 0 = Throws \<and> ?g 1 = Returns (Some 5)" by simp
  from retryOperation_bounded_linear_backoff [of ?f 3 800 "Some 0"] a
  have r: "result (retryOperation ?f 3 800) = None"
    and n: "attempts (retryOperation ?f 3 800) = 3"
    and d: "delays (retryOperation ?f 3 800) = map (\<lambda>k. 800 * int k) [1..<attempts (retryOperation ?f 3 800)]"
    by simp_all
  have "[1..<3] = [1, 2::nat]" by (simp add: upt_rec)
  with d n have d': "delays (retryOperation ?f 3 800) = [800, 1600]" by simp
  have one: "retryOperation ?f 3 800 = \<lparr>result = None, attempts = 3, delays = [800, 1600]\<rparr>"
    using r n d' by (cases "retryOperation ?f 3 800") simp
  from retryOperation_bounded_linear_backoff [of ?g 2 800 "Some 5"] g
  have two: "retryOperation ?g 2 800 = \<lparr>result = Some 5, attempts = 2, delays = [800]\<rparr>"
    by blast
  from one two show ?thesis by blast
qed

section \<open>Properties of getTokenPrice\<close>

lemma valid_nullable_Some: "isValidPrice (nullable p) \<Longrightarrow> \<exists>n. p = Some n"
  by (cases p) (simp_all add: isValidPrice_def)

lemma getTokenPrice_hit:
  "getCachedPrice w d tokenType = Some p \<Longrightarrow>
   getTokenPrice w d tokenType = \<lparr>ret = Some p, store = d, calls = [], puts = []\<rparr>"
  by (simp add: getTokenPrice_def)

lemma cache_and_return_valid:
  "isValidPrice (nullable p) \<Longrightarrow> cache_and_return w d t (p, tr) = resolved w d t (p, tr)"
  by (cases p) (simp_all add: cache_and_return_def resolved_def)

lemma cache_and_return_invalid:
  "\<not> isValidPrice (nullable p) \<Longrightarrow> cache_and_return w d t (p, tr) = resolved w d t (None, tr)"
  by (cases p) (simp_all add: cache_and_return_def resolved_def)

lemma getTokenPrice_miss_generic:
  assumes "getCachedPrice w d tokenType = None" and "tokenType \<noteq> ''0x2::sui::SUI''"
  shows "getTokenPrice w d tokenType =
           resolved w d tokenType
             (first_valid (chain_of w (map (\<lambda>s. (s, tokenType)) code_policy_order)))"
  using assms
  by (simp add: getTokenPrice_def chain_of_def code_policy_order_def or_else_def
        cache_and_return_valid cache_and_return_invalid)

lemma getTokenPrice_miss_base:
  assumes "getCachedPrice w d tokenType = None" and "tokenType = ''0x2::sui::SUI''"
  shows "getTokenPrice w d tokenType =
           resolved w d tokenType (first_valid (chain_of w (base_policy tokenType)))"
  using assms
  by (simp add: getTokenPrice_def chain_of_def base_policy_def or_else_def
        cache_and_return_valid cache_and_return_invalid)

lemma first_valid_result:
  "first_valid ch = (p, tr) \<Longrightarrow> p = None \<or> isValidPrice (nullable p)"
  by (induction ch arbitrary: p tr) (auto split: if_splits prod.splits)

lemma first_valid_prefix:
  "snd (first_valid ch) = take (length (snd (first_valid ch))) (map fst ch)"
  by (induction ch) (auto split: prod.splits)

lemma first_valid_exhausted:
  "\<forall>e\<in>set ch. \<not> isValidPrice (nullable (snd e)) \<Longrightarrow> first_valid ch = (None, map fst ch)"
proof (induction ch)
  case Nil
  show ?case by simp
next
  case (Cons e ch)
  obtain c v where e: "e = (c, v)" by (cases e)
  from Cons.prems e have "\<not> isValidPrice (nullable v)" by simp
  moreover from Cons have "first_valid ch = (None, map fst ch)" by simp
  ultimately show ?case by (simp add: e)
qed

lemma first_valid_stops:
  "\<forall>e\<in>set pre. \<not> isValidPrice (nullable (snd e)) \<Longrightarrow> isValidPrice (nullable v) \<Longrightarrow>
   first_valid (pre @ (c, v) # post) = (v, map fst pre @ [c])"
proof (induction pre)
  case Nil
  then show ?case by simp
next
  case (Cons e pre)
  obtain c' v' where e: "e = (c', v')" by (cases e)
  from Cons.prems e have "\<not> isValidPrice (nullable v')" by simp
  moreover from Cons have "first_valid (pre @ (c, v) # post) = (v, map fst pre @ [c])" by simp
  ultimately show ?case by (simp add: e)
qed

lemma ret_resolved: "p = None \<or> isValidPrice (nullable p) \<Longrightarrow> ret (resolved w d t (p, tr)) = p"
  by (cases p) (simp_all add: resolved_def)

lemma calls_resolved: "calls (resolved w d t (p, tr)) = tr"
  by (cases p) (simp_all add: resolved_def)

lemma ret_calls_resolved_first_valid:
  "(ret (resolved w d t (first_valid ch)), calls (resolved w d t (first_valid ch))) = first_valid ch"
proof (cases "first_valid ch")
  case (Pair p tr)
  with first_valid_result [OF Pair] show ?thesis
    by (simp add: calls_resolved) (cases p; simp add: resolved_def)
qed

lemma chain_of_append:
  "chain_of w (pre @ c # post) = chain_of w pre @ (c, adapter w (fst c) (snd c)) # chain_of w post"
  by (cases c) (simp add: chain_of_def)

text \<open>
  Claim C1 (as amended). For an identifier other than the base asset whose cache lookup
  misses, \<open>getTokenPrice\<close> invokes the adapters strictly in the order
  7k SDK, GeckoTerminal, DexScreener pair search, CoinGecko, Aftermath, Hop, 7k batch,
  DexScreener SUI-pair scan, and stops at the first adapter that yields a valid price:
  the price returned and the adapters invoked are those of \<open>first_valid\<close> on that
  chain, the invoked adapters are an initial segment of the order, and when the adapters
  before \<open>s\<close> yield nothing valid and \<open>s\<close> yields a valid price, that price is
  returned and no adapter after \<open>s\<close> is invoked.
\<close>

theorem generic_chain_in_code_order:
  assumes miss: "getCachedPrice w d tokenType = None"
    and generic: "tokenType \<noteq> ''0x2::sui::SUI''"
  shows "(ret (getTokenPrice w d tokenType), calls (getTokenPrice w d tokenType)) =
           first_valid (chain_of w (map (\<lambda>s. (s, tokenType)) code_policy_order))
         \<and> follows_order code_policy_order (getTokenPrice w d tokenType)
         \<and> (code_policy_order = pre @ s # post
              \<and> (\<forall>s'\<in>set pre. \<not> isValidPrice (nullable (adapter w s' tokenType)))
              \<and> isValidPrice (nullable (adapter w s tokenType))
            \<longrightarrow> ret (getTokenPrice w d tokenType) = adapter w s tokenType
                \<and> map fst (calls (getTokenPrice w d tokenType)) = pre @ [s])"
proof (intro conjI impI)
  let ?f = "\<lambda>s. (s, tokenType)"
  let ?ch = "chain_of w (map ?f code_policy_order)"
  let ?r = "getTokenPrice w d tokenType"
  have eq: "?r = resolved w d tokenType (first_valid ?ch)"
    by (rule getTokenPrice_miss_generic [OF miss generic])
  show pair: "(ret ?r, calls ?r) = first_valid ?ch"
    unfolding eq by (rule ret_calls_resolved_first_valid)
  have names: "map fst (map fst ?ch) = code_policy_order"
    by (simp add: chain_of_def comp_def)
  have "calls ?r = take (length (calls ?r)) (map fst ?ch)"
    using first_valid_prefix [of ?ch] by (simp add: pair [symmetric])
  then have "map fst (calls ?r) = map fst (take (length (calls ?r)) (map fst ?ch))"
    by simp
  also have "\<dots> = take (length (calls ?r)) code_policy_order"
    by (simp only: take_map [symmetric] names)
  finally show "follows_order code_policy_order ?r"
    by (simp add: follows_order_def)
  assume h: "code_policy_order = pre @ s # post
              \<and> (\<forall>s'\<in>set pre. \<not> isValidPrice (nullable (adapter w s' tokenType)))
              \<and> isValidPrice (nullable (adapter w s tokenType))"
  have "?ch = chain_of w (map ?f pre @ (s, tokenType) # map ?f post)"
    by (subst conjunct1 [OF h]) simp
  then have "?ch = chain_of w (map ?f pre) @ ((s, tokenType), adapter w s tokenType) # chain_of w (map ?f post)"
    by (simp only: chain_of_append fst_conv snd_conv)
  moreover have "\<forall>e\<in>set (chain_of w (map ?f pre)). \<not> isValidPrice (nullable (snd e))"
    using h by (simp add: chain_of_def)
  ultimately have "first_valid ?ch = (adapter w s tokenType, map fst (chain_of w (map ?f pre)) @ [(s, tokenType)])"
    using h by (simp only: first_valid_stops)
  moreover have "map fst (map fst (chain_of w (map ?f pre))) = pre"
    by (simp add: chain_of_def comp_def)
  ultimately show "ret ?r = adapter w s tokenType" and "map fst (calls ?r) = pre @ [s]"
    using pair by simp_all
qed


lemmas adapter_defs =
  get7kPrice_def getGeckoTerminalPrice_def getGeckoTerminalRun_def geckoTerminalOperation_def
  getDexScreenerPrice_def dexScreenerOperation_def dexScreenerSelect_def
  getAftermathPrice_def aftermathOperation_def aftermathCandidate_def
  get7kBatchPrice_def batchCandidate_def
  retryOperation_default_def retryOperation_def
  retry_loop_none retry_loop_returns retry_loop_last retry_loop_again
  valid_or_null_def isValidPrice_def js_isNaN_def js_isFinite_def js_or_def
  get_prop_def get_prop_opt_def first_key_prop_def first_key_prop_opt_def object_keys_def
  no_pairs_def on_sui_chain_def has_liquidity_def liquidity_of_def by_liquidity_desc_def
  array_sort_def extractContractAddress_def

lemmas cache_defs =
  getCachedPrice_def getToken_def saveToken_def setCachedPrice_def cache_row_def CACHE_DURATION_def

lemma hop_world_adapters:
  "getCachedPrice hop_and_aftermath_world Map.empty ''0xabc::mod::TOK'' = None"
  "get7kPrice hop_and_aftermath_world ''0xabc::mod::TOK'' = None"
  "getGeckoTerminalPrice hop_and_aftermath_world ''0xabc::mod::TOK'' = None"
  "getDexScreenerPrice hop_and_aftermath_world ''0xabc::mod::TOK'' = None"
  "getCoinGeckoPrice hop_and_aftermath_world ''0xabc::mod::TOK'' = None"
  "getAftermathPrice hop_and_aftermath_world ''0xabc::mod::TOK'' = Some (Num 3)"
  "getHopAggregatorPrice hop_and_aftermath_world ''0xabc::mod::TOK'' = Some (Num 2)"
  by (simp_all add: hop_and_aftermath_world_def quiet_world_def adapter_defs cache_defs)

theorem generic_chain_in_code_order_witness:
  "ret (getTokenPrice hop_and_aftermath_world Map.empty ''0xabc::mod::TOK'') = Some (Num 3)
   \<and> map fst (calls (getTokenPrice hop_and_aftermath_world Map.empty ''0xabc::mod::TOK''))
       = [Src7k, SrcGeckoTerminal, SrcDexScreener, SrcCoinGecko, SrcAftermath]
   \<and> follows_order code_policy_order
        (getTokenPrice hop_and_aftermath_world Map.empty ''0xabc::mod::TOK'')"
proof -
  have miss: "getCachedPrice hop_and_aftermath_world Map.empty ''0xabc::mod::TOK'' = None"
    by (rule hop_world_adapters)
  have generic: "''0xabc::mod::TOK'' \<noteq> ''0x2::sui::SUI''" by simp
  have split: "code_policy_order =
      [Src7k, SrcGeckoTerminal, SrcDexScreener, SrcCoinGecko] @ SrcAftermath # [SrcHop, Src7kBatch, SrcDexScreenerViaSui]"
    by (simp add: code_policy_order_def)
  have inv: "\<forall>s'\<in>set [Src7k, SrcGeckoTerminal, SrcDexScreener, SrcCoinGecko].
      \<not> isValidPrice (nullable (adapter hop_and_aftermath_world s' ''0xabc::mod::TOK''))"
    by (simp add: hop_world_adapters isValidPrice_def)
  have val: "isValidPrice (nullable (adapter hop_and_aftermath_world SrcAftermath ''0xabc::mod::TOK''))"
    by (simp add: hop_world_adapters isValidPrice_def js_isNaN_def js_isFinite_def)
  from generic_chain_in_code_order [OF miss generic,
      of "[Src7k, SrcGeckoTerminal, SrcDexScreener, SrcCoinGecko]" SrcAftermath
         "[SrcHop, Src7kBatch, SrcDexScreenerViaSui]"] split inv val
  show ?thesis by (simp add: hop_world_adapters)
qed

text \<open>
  Claim C1 as stated fails: the specification's order puts the Hop quote (source 5) before
  the Aftermath API (source 6). Where Hop would yield 2 and Aftermath yields 3, the code
  asks Aftermath fifth, returns 3 and never asks Hop.
\<close>

theorem spec_policy_order_counterexample:
  "adapter hop_and_aftermath_world SrcHop ''0xabc::mod::TOK'' = Some (Num 2)
   \<and> ret (getTokenPrice hop_and_aftermath_world Map.empty ''0xabc::mod::TOK'') = Some (Num 3)
   \<and> map fst (calls (getTokenPrice hop_and_aftermath_world Map.empty ''0xabc::mod::TOK''))
       = [Src7k, SrcGeckoTerminal, SrcDexScreener, SrcCoinGecko, SrcAftermath]
   \<and> \<not> follows_order spec_policy_order
          (getTokenPrice hop_and_aftermath_world Map.empty ''0xabc::mod::TOK'')"
proof -
  have miss: "getCachedPrice hop_and_aftermath_world Map.empty ''0xabc::mod::TOK'' = None"
    by (rule hop_world_adapters)
  have "getTokenPrice hop_and_aftermath_world Map.empty ''0xabc::mod::TOK'' =
          resolved hop_and_aftermath_world Map.empty ''0xabc::mod::TOK''
            (Some (Num 3), map (\<lambda>s. (s, ''0xabc::mod::TOK''))
               [Src7k, SrcGeckoTerminal, SrcDexScreener, SrcCoinGecko, SrcAftermath])"
    using hop_world_adapters
    by (simp add: getTokenPrice_miss_generic [OF miss] chain_of_def code_policy_order_def
          isValidPrice_def js_isNaN_def js_isFinite_def)
  then show ?thesis
    by (simp add: resolved_def follows_order_def spec_policy_order_def hop_world_adapters)
qed

lemma getTokenPrice_miss:
  assumes miss: "getCachedPrice w d tokenType = None"
  shows "getTokenPrice w d tokenType =
           resolved w d tokenType (first_valid (chain_of w (policy_for tokenType)))"
proof (cases "tokenType = ''0x2::sui::SUI''")
  case True
  then have "policy_for tokenType = base_policy tokenType"
    unfolding policy_for_def by (rule if_P)
  with getTokenPrice_miss_base [OF miss True] show ?thesis by (simp only:)
next
  case False
  then have "policy_for tokenType = map (\<lambda>s. (s, tokenType)) code_policy_order"
    unfolding policy_for_def by (rule if_not_P)
  with getTokenPrice_miss_generic [OF miss False] show ?thesis by (simp only:)
qed

lemma first_valid_nonempty: "ch \<noteq> [] \<Longrightarrow> snd (first_valid ch) \<noteq> []"
  by (cases ch) (auto split: prod.splits if_splits)

lemma policy_for_nonempty: "chain_of w (policy_for tokenType) \<noteq> []"
  by (simp add: policy_for_def base_policy_def code_policy_order_def chain_of_def)

lemma getCachedPrice_Some_iff:
  "getCachedPrice w d tokenType = Some p \<longleftrightarrow>
     \<not> db_read_fails w \<and>
     (case d tokenType of
        None \<Rightarrow> False
      | Some r \<Rightarrow> price_usd r = p \<and> p \<noteq> Num 0 \<and> now_read w - last_update r \<le> CACHE_DURATION)"
  by (auto simp: getCachedPrice_def getToken_def split: option.splits)

text \<open>
  Claim C3. When the cache lookup misses and every adapter of the chain walked for the
  identifier fails to yield a valid price, \<open>getTokenPrice\<close> returns \<open>null\<close> (a value,
  not an exception), hands no row to \<open>saveToken\<close>, and leaves the table as it was.
\<close>

theorem exhausted_chain_returns_null:
  assumes miss: "getCachedPrice w d tokenType = None"
    and allfail: "\<forall>c\<in>set (policy_for tokenType). \<not> isValidPrice (nullable (adapter w (fst c) (snd c)))"
  shows "getTokenPrice w d tokenType =
           \<lparr>ret = None, store = d, calls = policy_for tokenType, puts = []\<rparr>"
proof -
  have "\<forall>e\<in>set (chain_of w (policy_for tokenType)). \<not> isValidPrice (nullable (snd e))"
    using allfail by (auto simp: chain_of_def)
  then have "first_valid (chain_of w (policy_for tokenType)) =
               (None, map fst (chain_of w (policy_for tokenType)))"
    by (rule first_valid_exhausted)
  moreover have "map fst (chain_of w (policy_for tokenType)) = policy_for tokenType"
    by (simp add: chain_of_def comp_def case_prod_unfold)
  ultimately show ?thesis
    by (simp add: getTokenPrice_miss [OF miss] resolved_def)
qed

lemma quiet_world_adapters:
  "get7kPrice quiet_world t = None"
  "getGeckoTerminalPrice quiet_world t = None"
  "getDexScreenerPrice quiet_world t = None"
  "getCoinGeckoPrice quiet_world t = None"
  "getAftermathPrice quiet_world t = None"
  "getHopAggregatorPrice quiet_world t = None"
  "get7kBatchPrice quiet_world t = None"
  "getDexScreenerViaSuiPrice quiet_world t = None"
  by (simp_all add: quiet_world_def adapter_defs)

theorem exhausted_chain_returns_null_witness:
  "getTokenPrice quiet_world stale_db ''0xabc::mod::TOK'' =
     \<lparr>ret = None, store = stale_db,
      calls = map (\<lambda>s. (s, ''0xabc::mod::TOK''))
                [Src7k, SrcGeckoTerminal, SrcDexScreener, SrcCoinGecko, SrcAftermath, SrcHop,
                 Src7kBatch, SrcDexScreenerViaSui],
      puts = []\<rparr>"
proof -
  have miss: "getCachedPrice quiet_world stale_db ''0xabc::mod::TOK'' = None"
    by (simp add: cache_defs quiet_world_def stale_db_def)
  have allfail: "\<forall>c\<in>set (policy_for ''0xabc::mod::TOK'').
      \<not> isValidPrice (nullable (adapter quiet_world (fst c) (snd c)))"
    by (simp add: policy_for_def code_policy_order_def quiet_world_adapters isValidPrice_def)
  from exhausted_chain_returns_null [OF miss allfail] show ?thesis
    by (simp add: policy_for_def code_policy_order_def)
qed

text \<open>
  Claim C8. For the base asset \<open>0x2::sui::SUI\<close> with a cache lookup that misses,
  \<open>getTokenPrice\<close> walks the shortened chain CoinGecko by the known ID \<open>sui\<close>, then the
  7k SDK, GeckoTerminal and DexScreener, stopping at the first valid price; when CoinGecko
  yields a valid price, that price is returned after this one call and handed to
  \<open>saveToken\<close> in a row whose timestamp is the clock reading at the time of the write,
  and unless the storage fails that row is what the table holds afterwards.
\<close>

theorem base_asset_chain:
  assumes miss: "getCachedPrice w d tokenType = None"
    and base: "tokenType = ''0x2::sui::SUI''"
  shows "(ret (getTokenPrice w d tokenType), calls (getTokenPrice w d tokenType)) =
           first_valid
             [((SrcCoinGecko, ''sui''), getCoinGeckoPrice w ''sui''),
              ((Src7k, tokenType), get7kPrice w tokenType),
              ((SrcGeckoTerminal, tokenType), getGeckoTerminalPrice w tokenType),
              ((SrcDexScreener, tokenType), getDexScreenerPrice w tokenType)]
         \<and> (getCoinGeckoPrice w ''sui'' = Some p \<and> isValidPrice (Number p) \<longrightarrow>
              getTokenPrice w d tokenType =
                \<lparr>ret = Some p,
                 store = (if db_write_fails w then d
                          else d(tokenType \<mapsto>
                                 \<lparr>coin_type = tokenType, price_usd = p,
                                  last_update = now_write w, metadata = ''{}''\<rparr>)),
                 calls = [(SrcCoinGecko, ''sui'')],
                 puts = [\<lparr>coin_type = tokenType, price_usd = p,
                          last_update = now_write w, metadata = ''{}''\<rparr>]\<rparr>)"
proof (intro conjI impI)
  let ?ch = "chain_of w (base_policy tokenType)"
  have eq: "getTokenPrice w d tokenType = resolved w d tokenType (first_valid ?ch)"
    by (rule getTokenPrice_miss_base [OF miss base])
  have ch: "?ch = [((SrcCoinGecko, ''sui''), getCoinGeckoPrice w ''sui''),
              ((Src7k, tokenType), get7kPrice w tokenType),
              ((SrcGeckoTerminal, tokenType), getGeckoTerminalPrice w tokenType),
              ((SrcDexScreener, tokenType), getDexScreenerPrice w tokenType)]"
    by (simp add: chain_of_def base_policy_def)
  show "(ret (getTokenPrice w d tokenType), calls (getTokenPrice w d tokenType)) =
           first_valid
             [((SrcCoinGecko, ''sui''), getCoinGeckoPrice w ''sui''),
              ((Src7k, tokenType), get7kPrice w tokenType),
              ((SrcGeckoTerminal, tokenType), getGeckoTerminalPrice w tokenType),
              ((SrcDexScreener, tokenType), getDexScreenerPrice w tokenType)]"
    unfolding eq ch [symmetric] by (rule ret_calls_resolved_first_valid)
  assume "getCoinGeckoPrice w ''sui'' = Some p \<and> isValidPrice (Number p)"
  then have "first_valid ?ch = (Some p, [(SrcCoinGecko, ''sui'')])"
    by (simp add: ch)
  then show "getTokenPrice w d tokenType =
                \<lparr>ret = Some p,
                 store = (if db_write_fails w then d
                          else d(tokenType \<mapsto>
                                 \<lparr>coin_type = tokenType, price_usd = p,
                                  last_update = now_write w, metadata = ''{}''\<rparr>)),
                 calls = [(SrcCoinGecko, ''sui'')],
                 puts = [\<lparr>coin_type = tokenType, price_usd = p,
                          last_update = now_write w, metadata = ''{}''\<rparr>]\<rparr>"
    by (simp add: eq resolved_def setCachedPrice_def saveToken_def cache_row_def)
qed

theorem base_asset_chain_witness:
  "getTokenPrice coingecko_sui_world Map.empty ''0x2::sui::SUI'' =
     \<lparr>ret = Some (Num 1.23),
      store = [''0x2::sui::SUI'' \<mapsto>
                 \<lparr>coin_type = ''0x2::sui::SUI'', price_usd = Num 1.23,
                  last_update = 1000500, metadata = ''{}''\<rparr>],
      calls = [(SrcCoinGecko, ''sui'')],
      puts = [\<lparr>coin_type = ''0x2::sui::SUI'', price_usd = Num 1.23,
               last_update = 1000500, metadata = ''{}''\<rparr>]\<rparr>"
proof -
  have miss: "getCachedPrice coingecko_sui_world Map.empty ''0x2::sui::SUI'' = None"
    by (simp add: cache_defs coingecko_sui_world_def quiet_world_def)
  have cg: "getCoinGeckoPrice coingecko_sui_world ''sui'' = Some (Num 1.23)
            \<and> isValidPrice (Number (Num 1.23))"
    by (simp add: coingecko_sui_world_def quiet_world_def isValidPrice_def js_isNaN_def js_isFinite_def)
  from base_asset_chain [OF miss refl, of "Num 1.23"] cg show ?thesis
    by (simp add: coingecko_sui_world_def quiet_world_def)
qed

lemma getCachedPrice_None_iff:
  "getCachedPrice w d tokenType = None \<longleftrightarrow>
     db_read_fails w \<or>
     (case d tokenType of
        None \<Rightarrow> True
      | Some r \<Rightarrow> price_usd r = Num 0 \<or> now_read w - last_update r > CACHE_DURATION)"
  by (auto simp: getCachedPrice_def getToken_def split: option.splits)

lemma calls_on_miss:
  assumes "getCachedPrice w d tokenType = None"
  shows "calls (getTokenPrice w d tokenType) \<noteq> []"
proof -
  obtain p tr where ft: "first_valid (chain_of w (policy_for tokenType)) = (p, tr)"
    by (cases "first_valid (chain_of w (policy_for tokenType))")
  with first_valid_nonempty [OF policy_for_nonempty, of w tokenType] have "tr \<noteq> []" by simp
  then show ?thesis
    by (simp add: getTokenPrice_miss [OF assms] ft calls_resolved)
qed

text \<open>
  Claim C2 (as amended). The cache answers fresh if and only if the storage read succeeds,
  a record exists, its stored price is not equal to zero, and \<open>now - last_update\<close> is at
  most the TTL of five minutes; a record that is fresh in the specification's sense
  (price strictly greater than zero, age within the TTL) is fresh in this sense. Whenever
  the cache answers fresh, \<open>getTokenPrice\<close> returns the stored price without invoking
  any adapter and without writing; otherwise, in particular for a stored price of exactly
  zero or an age beyond the TTL, it goes on to the live chain.
\<close>

theorem cache_freshness:
  "(getCachedPrice w d tokenType \<noteq> None \<longleftrightarrow>
      \<not> db_read_fails w \<and>
      (case d tokenType of
         None \<Rightarrow> False
       | Some r \<Rightarrow> price_usd r \<noteq> Num 0 \<and> now_read w - last_update r \<le> CACHE_DURATION))
   \<and> (\<not> db_read_fails w \<and> spec_isFresh d (now_read w) tokenType CACHE_DURATION
        \<longrightarrow> getCachedPrice w d tokenType \<noteq> None)
   \<and> (getCachedPrice w d tokenType = Some p \<longrightarrow>
        (case d tokenType of None \<Rightarrow> False | Some r \<Rightarrow> price_usd r = p)
        \<and> getTokenPrice w d tokenType = \<lparr>ret = Some p, store = d, calls = [], puts = []\<rparr>)
   \<and> (getCachedPrice w d tokenType = None \<longrightarrow>
        getTokenPrice w d tokenType =
          resolved w d tokenType (first_valid (chain_of w (policy_for tokenType)))
        \<and> calls (getTokenPrice w d tokenType) \<noteq> [])"
proof (intro conjI impI)
  show iff: "getCachedPrice w d tokenType \<noteq> None \<longleftrightarrow>
      \<not> db_read_fails w \<and>
      (case d tokenType of
         None \<Rightarrow> False
       | Some r \<Rightarrow> price_usd r \<noteq> Num 0 \<and> now_read w - last_update r \<le> CACHE_DURATION)"
    by (simp add: getCachedPrice_None_iff split: option.splits) auto
  show "getCachedPrice w d tokenType \<noteq> None"
    if "\<not> db_read_fails w \<and> spec_isFresh d (now_read w) tokenType CACHE_DURATION"
    using that unfolding iff
    by (auto simp: spec_isFresh_def split: option.splits)
next
  assume hit: "getCachedPrice w d tokenType = Some p"
  then show "case d tokenType of None \<Rightarrow> False | Some r \<Rightarrow> price_usd r = p"
    by (auto simp: getCachedPrice_Some_iff split: option.splits)
  from hit show "getTokenPrice w d tokenType = \<lparr>ret = Some p, store = d, calls = [], puts = []\<rparr>"
    by (rule getTokenPrice_hit)
next
  assume miss: "getCachedPrice w d tokenType = None"
  then show "getTokenPrice w d tokenType =
          resolved w d tokenType (first_valid (chain_of w (policy_for tokenType)))"
    by (rule getTokenPrice_miss)
  from miss show "calls (getTokenPrice w d tokenType) \<noteq> []"
    by (rule calls_on_miss)
qed

theorem cache_freshness_witness:
  "getTokenPrice quiet_world fresh_db ''0xabc::mod::TOK'' =
     \<lparr>ret = Some (Num 4), store = fresh_db, calls = [], puts = []\<rparr>
   \<and> getCachedPrice quiet_world stale_db ''0xabc::mod::TOK'' = None
   \<and> calls (getTokenPrice quiet_world stale_db ''0xabc::mod::TOK'') \<noteq> []"
proof -
  have fresh: "\<not> db_read_fails quiet_world
      \<and> spec_isFresh fresh_db (now_read quiet_world) ''0xabc::mod::TOK'' CACHE_DURATION"
    by (simp add: quiet_world_def spec_isFresh_def fresh_db_def CACHE_DURATION_def)
  have hit: "getCachedPrice quiet_world fresh_db ''0xabc::mod::TOK'' = Some (Num 4)"
    by (simp add: cache_defs quiet_world_def fresh_db_def)
  have miss: "getCachedPrice quiet_world stale_db ''0xabc::mod::TOK'' = None"
    by (simp add: cache_defs quiet_world_def stale_db_def)
  from cache_freshness [of quiet_world fresh_db "''0xabc::mod::TOK''" "Num 4"] fresh hit
  have one: "getTokenPrice quiet_world fresh_db ''0xabc::mod::TOK'' =
     \<lparr>ret = Some (Num 4), store = fresh_db, calls = [], puts = []\<rparr>"
    by blast
  from cache_freshness [of quiet_world stale_db "''0xabc::mod::TOK''" "Num 4"] miss
  have two: "calls (getTokenPrice quiet_world stale_db ''0xabc::mod::TOK'') \<noteq> []"
    by blast
  from one miss two show ?thesis by blast
qed

text \<open>
  Claim C2 as stated fails: a record with the stored price -1 and an age of one minute is
  not fresh in the specification's sense (its price is not greater than zero), yet the
  cache answers it and \<open>getTokenPrice\<close> returns -1 without invoking any adapter.
\<close>

theorem negative_price_fresh_counterexample:
  "\<not> spec_isFresh negative_price_db (now_read quiet_world) ''0xabc::mod::TOK'' CACHE_DURATION
   \<and> getCachedPrice quiet_world negative_price_db ''0xabc::mod::TOK'' = Some (Num (- 1))
   \<and> getTokenPrice quiet_world negative_price_db ''0xabc::mod::TOK'' =
       \<lparr>ret = Some (Num (- 1)), store = negative_price_db, calls = [], puts = []\<rparr>"
  by (simp add: getTokenPrice_def cache_defs quiet_world_def negative_price_db_def spec_isFresh_def)

lemma puts_resolved_first_valid:
  "row \<in> set (puts (resolved w d t (first_valid ch))) \<Longrightarrow> isValidPrice (Number (price_usd row))"
proof -
  assume a: "row \<in> set (puts (resolved w d t (first_valid ch)))"
  obtain p tr where ft: "first_valid ch = (p, tr)" by (cases "first_valid ch")
  from first_valid_result [OF ft] a ft show ?thesis
    by (cases p) (auto simp: resolved_def cache_row_def)
qed

text \<open>
  Claim C4 (as amended). Every price handed to the cache write satisfies the validator,
  and every non-absent value returned after a cache miss satisfies the validator. On a
  cache hit the stored price is returned as it is: it is known to be different from zero,
  and it satisfies the validator when the stored price does.
\<close>

theorem only_valid_prices_resolved_or_written:
  "(\<forall>row\<in>set (puts (getTokenPrice w d tokenType)). isValidPrice (Number (price_usd row)))
   \<and> (ret (getTokenPrice w d tokenType) = Some p \<longrightarrow>
        isValidPrice (Number p)
        \<or> (getCachedPrice w d tokenType = Some p \<and> p \<noteq> Num 0
            \<and> (case d tokenType of None \<Rightarrow> False | Some r \<Rightarrow> price_usd r = p)))"
proof (cases "getCachedPrice w d tokenType")
  case None
  let ?ch = "chain_of w (policy_for tokenType)"
  have eq: "getTokenPrice w d tokenType = resolved w d tokenType (first_valid ?ch)"
    by (rule getTokenPrice_miss [OF None])
  obtain q tr where ft: "first_valid ?ch = (q, tr)" by (cases "first_valid ?ch")
  have "ret (getTokenPrice w d tokenType) = q"
    using first_valid_result [OF ft] by (simp add: eq ft ret_resolved)
  moreover have "q = None \<or> isValidPrice (nullable q)" by (rule first_valid_result [OF ft])
  ultimately have "ret (getTokenPrice w d tokenType) = Some p \<longrightarrow> isValidPrice (Number p)"
    by auto
  moreover have "\<forall>row\<in>set (puts (getTokenPrice w d tokenType)). isValidPrice (Number (price_usd row))"
    unfolding eq by (blast intro: puts_resolved_first_valid)
  ultimately show ?thesis by blast
next
  case (Some c)
  then have "getTokenPrice w d tokenType = \<lparr>ret = Some c, store = d, calls = [], puts = []\<rparr>"
    by (rule getTokenPrice_hit)
  moreover from Some have "c \<noteq> Num 0 \<and> (case d tokenType of None \<Rightarrow> False | Some r \<Rightarrow> price_usd r = c)"
    by (auto simp: getCachedPrice_Some_iff split: option.splits)
  ultimately show ?thesis using Some by auto
qed

lemma broken_storage_world_facts:
  "db_read_fails broken_storage_world"
  "db_write_fails broken_storage_world"
  "now_write broken_storage_world = 1000500"
  "first_valid (chain_of broken_storage_world (policy_for ''0xabc::mod::TOK'')) =
      (Some (Num 5), [(Src7k, ''0xabc::mod::TOK'')])"
  by (simp_all add: policy_for_def code_policy_order_def chain_of_def adapter_defs
        broken_storage_world_def quiet_world_def)

theorem only_valid_prices_resolved_or_written_witness:
  "puts (getTokenPrice broken_storage_world fresh_db ''0xabc::mod::TOK'')
     = [\<lparr>coin_type = ''0xabc::mod::TOK'', price_usd = Num 5, last_update = 1000500,
         metadata = ''{}''\<rparr>]
   \<and> ret (getTokenPrice broken_storage_world fresh_db ''0xabc::mod::TOK'') = Some (Num 5)
   \<and> isValidPrice (Number (Num 5))"
proof -
  have miss: "getCachedPrice broken_storage_world fresh_db ''0xabc::mod::TOK'' = None"
    by (simp add: getCachedPrice_def getToken_def broken_storage_world_facts)
  have r: "getTokenPrice broken_storage_world fresh_db ''0xabc::mod::TOK'' =
      \<lparr>ret = Some (Num 5), store = fresh_db, calls = [(Src7k, ''0xabc::mod::TOK'')],
       puts = [\<lparr>coin_type = ''0xabc::mod::TOK'', price_usd = Num 5, last_update = 1000500,
                metadata = ''{}''\<rparr>]\<rparr>"
    by (simp add: getTokenPrice_miss [OF miss] broken_storage_world_facts resolved_def
          setCachedPrice_def saveToken_def cache_row_def)
  have "\<not> (getCachedPrice broken_storage_world fresh_db ''0xabc::mod::TOK'' = Some (Num 5))"
    by (simp add: miss)
  with only_valid_prices_resolved_or_written
         [of broken_storage_world fresh_db "''0xabc::mod::TOK''" "Num 5"] r
  have "isValidPrice (Number (Num 5))" by simp
  with r show ?thesis by simp
qed

text \<open>
  Claim C4 as stated fails: with a stored price of -2 that is one second old,
  \<open>getTokenPrice\<close> returns -2, a value the validator rejects.
\<close>

theorem invalid_cached_price_returned_counterexample:
  "ret (getTokenPrice quiet_world negative_two_db ''0xdef::mod::TOK'') = Some (Num (- 2))
   \<and> \<not> isValidPrice (Number (Num (- 2)))"
  by (simp add: getTokenPrice_def cache_defs quiet_world_def negative_two_db_def
        isValidPrice_def js_isNaN_def js_isFinite_def)

text \<open>
  Claim C6. When the storage read fails, the cache lookup is a miss and the live chain
  is walked; when the storage write fails after a price has been resolved, that price is
  still returned (the row was handed to \<open>saveToken\<close>, the table is unchanged).
\<close>

theorem storage_errors_swallowed:
  "(db_read_fails w \<longrightarrow>
      getCachedPrice w d tokenType = None
      \<and> getTokenPrice w d tokenType =
          resolved w d tokenType (first_valid (chain_of w (policy_for tokenType)))
      \<and> calls (getTokenPrice w d tokenType) \<noteq> [])
   \<and> (db_write_fails w \<longrightarrow> setCachedPrice w d tokenType p = d)
   \<and> (db_write_fails w \<and> getCachedPrice w d tokenType = None
       \<and> first_valid (chain_of w (policy_for tokenType)) = (Some p, tr) \<longrightarrow>
         getTokenPrice w d tokenType =
           \<lparr>ret = Some p, store = d, calls = tr, puts = [cache_row w tokenType p]\<rparr>)"
proof (intro conjI impI)
  assume rf: "db_read_fails w"
  then show miss: "getCachedPrice w d tokenType = None"
    by (simp add: getCachedPrice_def getToken_def)
  then show "getTokenPrice w d tokenType =
          resolved w d tokenType (first_valid (chain_of w (policy_for tokenType)))"
    by (rule getTokenPrice_miss)
  from miss show "calls (getTokenPrice w d tokenType) \<noteq> []" by (rule calls_on_miss)
next
  assume "db_write_fails w"
  then show "setCachedPrice w d tokenType p = d"
    by (simp add: setCachedPrice_def saveToken_def)
next
  assume h: "db_write_fails w \<and> getCachedPrice w d tokenType = None
       \<and> first_valid (chain_of w (policy_for tokenType)) = (Some p, tr)"
  then have "getTokenPrice w d tokenType = resolved w d tokenType (Some p, tr)"
    using getTokenPrice_miss [of w d tokenType] by simp
  with h show "getTokenPrice w d tokenType =
           \<lparr>ret = Some p, store = d, calls = tr, puts = [cache_row w tokenType p]\<rparr>"
    by (simp add: resolved_def setCachedPrice_def saveToken_def)
qed

theorem storage_errors_swallowed_witness:
  "getTokenPrice broken_storage_world fresh_db ''0xabc::mod::TOK'' =
      \<lparr>ret = Some (Num 5), store = fresh_db, calls = [(Src7k, ''0xabc::mod::TOK'')],
       puts = [\<lparr>coin_type = ''0xabc::mod::TOK'', price_usd = Num 5, last_update = 1000500,
                metadata = ''{}''\<rparr>]\<rparr>"
proof -
  note f = broken_storage_world_facts
  from storage_errors_swallowed [of broken_storage_world fresh_db "''0xabc::mod::TOK''"] f(1)
  have miss: "getCachedPrice broken_storage_world fresh_db ''0xabc::mod::TOK'' = None"
    by blast
  from storage_errors_swallowed
         [of broken_storage_world fresh_db "''0xabc::mod::TOK''" "Num 5" "[(Src7k, ''0xabc::mod::TOK'')]"]
       f(2) miss f(4)
  have "getTokenPrice broken_storage_world fresh_db ''0xabc::mod::TOK'' =
      \<lparr>ret = Some (Num 5), store = fresh_db, calls = [(Src7k, ''0xabc::mod::TOK'')],
       puts = [cache_row broken_storage_world ''0xabc::mod::TOK'' (Num 5)]\<rparr>"
    by blast
  then show ?thesis
    by (simp add: cache_row_def f(3))
qed

text \<open>
  Claim C9. \<open>retryOperation\<close> retries only when the operation throws. An operation that
  resolves on its first invocation is invoked at most once and no wait is scheduled,
  whatever \<open>maxRetries\<close> is; with \<open>maxRetries\<close> of at least 1 (so that there is a first
  invocation) the resolved value, \<open>null\<close> included, is returned after exactly one
  invocation. So the GeckoTerminal adapter, whose operation returns \<open>null\<close> on a status
  that is not OK and on a missing price field, is not attempted a second time in
  these cases.
\<close>

theorem resolved_operation_not_retried:
  "(operation 0 = Returns v \<longrightarrow>
      attempts (retryOperation operation maxRetries delay) \<le> 1
      \<and> delays (retryOperation operation maxRetries delay) = [])
   \<and> (1 \<le> maxRetries \<and> operation 0 = Returns v \<longrightarrow>
        retryOperation operation maxRetries delay = \<lparr>result = v, attempts = 1, delays = []\<rparr>)
   \<and> (geckoterminal_fetch w 0 tokenType = Returns (Response False body) \<longrightarrow>
        getGeckoTerminalRun w tokenType = \<lparr>result = None, attempts = 1, delays = []\<rparr>)
   \<and> (geckoterminal_fetch w 0 tokenType = Returns (Response True (Returns \<lparr>gt_price_usd = None\<rparr>)) \<longrightarrow>
        getGeckoTerminalRun w tokenType = \<lparr>result = None, attempts = 1, delays = []\<rparr>)"
proof (intro conjI impI)
  assume r: "operation 0 = Returns v"
  show "attempts (retryOperation operation maxRetries delay) \<le> 1"
    using r by (cases "0 < maxRetries") (simp_all add: retryOperation_def retry_loop_returns retry_loop_none)
  show "delays (retryOperation operation maxRetries delay) = []"
    using r by (cases "0 < maxRetries") (simp_all add: retryOperation_def retry_loop_returns retry_loop_none)
next
  assume "1 \<le> maxRetries \<and> operation 0 = Returns v"
  then show "retryOperation operation maxRetries delay = \<lparr>result = v, attempts = 1, delays = []\<rparr>"
    by (simp add: retryOperation_def retry_loop_returns)
next
  assume "geckoterminal_fetch w 0 tokenType = Returns (Response False body)"
  then have "geckoTerminalOperation w tokenType 0 = Returns None"
    by (simp add: geckoTerminalOperation_def)
  then show "getGeckoTerminalRun w tokenType = \<lparr>result = None, attempts = 1, delays = []\<rparr>"
    by (simp add: getGeckoTerminalRun_def retryOperation_default_def retryOperation_def retry_loop_returns)
next
  assume "geckoterminal_fetch w 0 tokenType = Returns (Response True (Returns \<lparr>gt_price_usd = None\<rparr>))"
  then have "geckoTerminalOperation w tokenType 0 = Returns None"
    by (simp add: geckoTerminalOperation_def)
  then show "getGeckoTerminalRun w tokenType = \<lparr>result = None, attempts = 1, delays = []\<rparr>"
    by (simp add: getGeckoTerminalRun_def retryOperation_default_def retryOperation_def retry_loop_returns)
qed

theorem resolved_operation_not_retried_witness:
  "retryOperation (\<lambda>k. Returns (None :: int option)) 5 800 = \<lparr>result = None, attempts = 1, delays = []\<rparr>
   \<and> getGeckoTerminalRun gecko_not_ok_world ''0xabc::mod::TOK'' = \<lparr>result = None, attempts = 1, delays = []\<rparr>"
proof -
  have f: "geckoterminal_fetch gecko_not_ok_world 0 ''0xabc::mod::TOK'' = Returns (Response False Throws)"
    by (simp add: gecko_not_ok_world_def quiet_world_def)
  from resolved_operation_not_retried
         [of "\<lambda>k. Returns (None :: int option)" None 5 800 gecko_not_ok_world "''0xabc::mod::TOK''" Throws] f
  show ?thesis by simp
qed

lemma getAftermathPrice_ok:
  "aftermath_fetch w 0 tokenType = Returns (Response True (Returns data)) \<Longrightarrow>
   getAftermathPrice w tokenType = valid_or_null (aftermathCandidate data tokenType)"
  by (simp add: getAftermathPrice_def aftermathOperation_def retryOperation_def retry_loop_returns)

lemma valid_or_null_Number: "isValidPrice (Number p) \<Longrightarrow> valid_or_null (Number p) = Some p"
  by (simp add: valid_or_null_def)

lemma not_inherited_undefined:
  "map_of obj k = None \<Longrightarrow> k \<notin> set object_prototype_names \<Longrightarrow> get_prop obj k = Undefined"
  by (simp add: get_prop_def)

lemma inherited_builtin:
  "map_of obj k = None \<Longrightarrow> k \<in> set object_prototype_names \<Longrightarrow> get_prop obj k = Builtin"
  by (simp add: get_prop_def)

lemma first_key_prop_Cons: "first_key_prop ((k, v) # rest) = v"
  by (simp add: first_key_prop_def object_keys_def get_prop_def)

text \<open>
  Claim C10 (as amended). In the Aftermath and 7k-batch adapters, when the parsed
  response object has no entry keyed by the requested identifier and the identifier is
  not the name of a member that every object inherits from \<open>Object.prototype\<close>, the
  candidate is read from the value under the object's first key. So a valid price that
  the response attributes to another identifier is returned by \<open>getTokenPrice\<close> and
  handed to the cache write under the requested identifier. When the identifier is the
  name of an inherited member, the property read yields that member, the first key is
  not consulted, and the candidate is no price.
\<close>

theorem first_key_fallback:
  "(map_of ((k, v) # rest) tokenType = None \<and> tokenType \<notin> set object_prototype_names \<longrightarrow>
      aftermathCandidate (Some ((k, v) # rest)) tokenType = price_prop v
      \<and> batchCandidate ((k, v) # rest) tokenType = v)
   \<and> (map_of obj tokenType = None \<and> tokenType \<in> set object_prototype_names \<longrightarrow>
        aftermathCandidate (Some obj) tokenType = Undefined
        \<and> batchCandidate obj tokenType = Builtin)
   \<and> (getCachedPrice w d tokenType = None \<and> tokenType \<noteq> ''0x2::sui::SUI''
       \<and> (\<forall>s\<in>set [Src7k, SrcGeckoTerminal, SrcDexScreener, SrcCoinGecko].
             \<not> isValidPrice (nullable (adapter w s tokenType)))
       \<and> aftermath_fetch w 0 tokenType =
           Returns (Response True (Returns (Some ((k, Obj [(''price'', Number p)]) # rest))))
       \<and> map_of ((k, Obj [(''price'', Number p)]) # rest) tokenType = None
       \<and> tokenType \<notin> set object_prototype_names
       \<and> isValidPrice (Number p) \<longrightarrow>
         getTokenPrice w d tokenType =
           \<lparr>ret = Some p, store = setCachedPrice w d tokenType p,
            calls = map (\<lambda>s. (s, tokenType))
                      [Src7k, SrcGeckoTerminal, SrcDexScreener, SrcCoinGecko, SrcAftermath],
            puts = [cache_row w tokenType p]\<rparr>)
   \<and> (getCachedPrice w d tokenType = None \<and> tokenType \<noteq> ''0x2::sui::SUI''
       \<and> (\<forall>s\<in>set [Src7k, SrcGeckoTerminal, SrcDexScreener, SrcCoinGecko, SrcAftermath, SrcHop].
             \<not> isValidPrice (nullable (adapter w s tokenType)))
       \<and> sdk_getTokenPrices w [tokenType] = Returns (Some ((k, Number p) # rest))
       \<and> map_of ((k, Number p) # rest) tokenType = None
       \<and> tokenType \<notin> set object_prototype_names
       \<and> isValidPrice (Number p) \<longrightarrow>
         getTokenPrice w d tokenType =
           \<lparr>ret = Some p, store = setCachedPrice w d tokenType p,
            calls = map (\<lambda>s. (s, tokenType))
                      [Src7k, SrcGeckoTerminal, SrcDexScreener, SrcCoinGecko, SrcAftermath,
                       SrcHop, Src7kBatch],
            puts = [cache_row w tokenType p]\<rparr>)"
proof (intro conjI impI)
  assume h: "map_of ((k, v) # rest) tokenType = None \<and> tokenType \<notin> set object_prototype_names"
  then have u: "get_prop ((k, v) # rest) tokenType = Undefined"
    by (intro not_inherited_undefined) simp_all
  show "aftermathCandidate (Some ((k, v) # rest)) tokenType = price_prop v"
    by (simp add: aftermathCandidate_def js_or_def get_prop_opt_def first_key_prop_opt_def
          u first_key_prop_Cons)
  show "batchCandidate ((k, v) # rest) tokenType = v"
    by (simp add: batchCandidate_def js_or_def u first_key_prop_Cons)
next
  assume h: "map_of obj tokenType = None \<and> tokenType \<in> set object_prototype_names"
  then have b: "get_prop obj tokenType = Builtin"
    by (intro inherited_builtin) simp_all
  show "aftermathCandidate (Some obj) tokenType = Undefined"
    by (simp add: aftermathCandidate_def js_or_def get_prop_opt_def b)
  show "batchCandidate obj tokenType = Builtin"
    by (simp add: batchCandidate_def js_or_def b)
next
  assume h: "getCachedPrice w d tokenType = None \<and> tokenType \<noteq> ''0x2::sui::SUI''
       \<and> (\<forall>s\<in>set [Src7k, SrcGeckoTerminal, SrcDexScreener, SrcCoinGecko].
             \<not> isValidPrice (nullable (adapter w s tokenType)))
       \<and> aftermath_fetch w 0 tokenType =
           Returns (Response True (Returns (Some ((k, Obj [(''price'', Number p)]) # rest))))
       \<and> map_of ((k, Obj [(''price'', Number p)]) # rest) tokenType = None
       \<and> tokenType \<notin> set object_prototype_names
       \<and> isValidPrice (Number p)"
  then have u: "get_prop ((k, Obj [(''price'', Number p)]) # rest) tokenType = Undefined"
    by (intro not_inherited_undefined) simp_all
  have cand: "aftermathCandidate (Some ((k, Obj [(''price'', Number p)]) # rest)) tokenType = Number p"
    by (simp add: aftermathCandidate_def js_or_def get_prop_opt_def first_key_prop_opt_def
          u first_key_prop_Cons)
       (simp add: get_prop_def)
  have am: "getAftermathPrice w tokenType = Some p"
    using h by (simp add: getAftermathPrice_ok cand valid_or_null_Number)
  from h am show "getTokenPrice w d tokenType =
           \<lparr>ret = Some p, store = setCachedPrice w d tokenType p,
            calls = map (\<lambda>s. (s, tokenType))
                      [Src7k, SrcGeckoTerminal, SrcDexScreener, SrcCoinGecko, SrcAftermath],
            puts = [cache_row w tokenType p]\<rparr>"
    by (simp add: getTokenPrice_miss_generic chain_of_def code_policy_order_def resolved_def)
next
  assume h: "getCachedPrice w d tokenType = None \<and> tokenType \<noteq> ''0x2::sui::SUI''
       \<and> (\<forall>s\<in>set [Src7k, SrcGeckoTerminal, SrcDexScreener, SrcCoinGecko, SrcAftermath, SrcHop].
             \<not> isValidPrice (nullable (adapter w s tokenType)))
       \<and> sdk_getTokenPrices w [tokenType] = Returns (Some ((k, Number p) # rest))
       \<and> map_of ((k, Number p) # rest) tokenType = None
       \<and> tokenType \<notin> set object_prototype_names
       \<and> isValidPrice (Number p)"
  then have u: "get_prop ((k, Number p) # rest) tokenType = Undefined"
    by (intro not_inherited_undefined) simp_all
  have cand: "batchCandidate ((k, Number p) # rest) tokenType = Number p"
    by (simp add: batchCandidate_def js_or_def u first_key_prop_Cons)
  have am: "get7kBatchPrice w tokenType = Some p"
    using h by (simp add: get7kBatchPrice_def cand valid_or_null_Number)
  from h am show "getTokenPrice w d tokenType =
           \<lparr>ret = Some p, store = setCachedPrice w d tokenType p,
            calls = map (\<lambda>s. (s, tokenType))
                      [Src7k, SrcGeckoTerminal, SrcDexScreener, SrcCoinGecko, SrcAftermath,
                       SrcHop, Src7kBatch],
            puts = [cache_row w tokenType p]\<rparr>"
    by (simp add: getTokenPrice_miss_generic chain_of_def code_policy_order_def resolved_def)
qed

lemma quiet_world_update_adapters:
  "get7kPrice (quiet_world\<lparr>aftermath_fetch := f\<rparr>) t = None"
  "getGeckoTerminalPrice (quiet_world\<lparr>aftermath_fetch := f\<rparr>) t = None"
  "getDexScreenerPrice (quiet_world\<lparr>aftermath_fetch := f\<rparr>) t = None"
  "getCoinGeckoPrice (quiet_world\<lparr>aftermath_fetch := f\<rparr>) t = None"
  "getHopAggregatorPrice (quiet_world\<lparr>aftermath_fetch := f\<rparr>) t = None"
  "get7kBatchPrice (quiet_world\<lparr>aftermath_fetch := f\<rparr>) t = None"
  "getDexScreenerViaSuiPrice (quiet_world\<lparr>aftermath_fetch := f\<rparr>) t = None"
  "get7kPrice (quiet_world\<lparr>sdk_getTokenPrices := g\<rparr>) t = None"
  "getGeckoTerminalPrice (quiet_world\<lparr>sdk_getTokenPrices := g\<rparr>) t = None"
  "getDexScreenerPrice (quiet_world\<lparr>sdk_getTokenPrices := g\<rparr>) t = None"
  "getCoinGeckoPrice (quiet_world\<lparr>sdk_getTokenPrices := g\<rparr>) t = None"
  "getAftermathPrice (quiet_world\<lparr>sdk_getTokenPrices := g\<rparr>) t = None"
  "getHopAggregatorPrice (quiet_world\<lparr>sdk_getTokenPrices := g\<rparr>) t = None"
  by (simp_all add: quiet_world_def adapter_defs)

lemma other_key_world_facts:
  "db_write_fails aftermath_other_key_world = False"
  "now_write aftermath_other_key_world = 1000500"
  "db_write_fails batch_other_key_world = False"
  "now_write batch_other_key_world = 1000500"
  "getCachedPrice aftermath_other_key_world Map.empty t = None"
  "getCachedPrice batch_other_key_world Map.empty t = None"
  "aftermath_fetch aftermath_other_key_world 0 t =
     Returns (Response True
       (Returns (Some ((''0xfff::other::OTHER'', Obj [(''price'', Number (Num 7))]) # []))))"
  "sdk_getTokenPrices batch_other_key_world [t] =
     Returns (Some ((''0xfff::other::OTHER'', Number (Num 9)) # []))"
  by (simp_all add: aftermath_other_key_world_def batch_other_key_world_def quiet_world_def
        cache_defs)

theorem first_key_fallback_witness:
  "getTokenPrice aftermath_other_key_world Map.empty ''0xabc::mod::TOK'' =
     \<lparr>ret = Some (Num 7),
      store = [''0xabc::mod::TOK'' \<mapsto>
                 \<lparr>coin_type = ''0xabc::mod::TOK'', price_usd = Num 7, last_update = 1000500,
                  metadata = ''{}''\<rparr>],
      calls = map (\<lambda>s. (s, ''0xabc::mod::TOK''))
                [Src7k, SrcGeckoTerminal, SrcDexScreener, SrcCoinGecko, SrcAftermath],
      puts = [\<lparr>coin_type = ''0xabc::mod::TOK'', price_usd = Num 7, last_update = 1000500,
               metadata = ''{}''\<rparr>]\<rparr>
   \<and> ret (getTokenPrice batch_other_key_world Map.empty ''0xabc::mod::TOK'') = Some (Num 9)
   \<and> puts (getTokenPrice batch_other_key_world Map.empty ''0xabc::mod::TOK'') =
       [\<lparr>coin_type = ''0xabc::mod::TOK'', price_usd = Num 9, last_update = 1000500,
         metadata = ''{}''\<rparr>]
   \<and> batchCandidate [(''0xfff::other::OTHER'', Number (Num 9))] ''toString'' = Builtin"
proof -
  let ?t = "''0xabc::mod::TOK''"
  let ?o = "''0xfff::other::OTHER''"
  note f = other_key_world_facts
  have own: "?t \<notin> set object_prototype_names" "?t \<noteq> ''0x2::sui::SUI''" "?o \<noteq> ?t"
    "''toString'' \<in> set object_prototype_names" "?o \<noteq> ''toString''"
    by (simp_all add: object_prototype_names_def)
  have valid: "isValidPrice (Number (Num 7))" "isValidPrice (Number (Num 9))"
    by (simp_all add: isValidPrice_def js_isNaN_def js_isFinite_def)
  have a1: "getCachedPrice aftermath_other_key_world Map.empty ?t = None \<and> ?t \<noteq> ''0x2::sui::SUI''
       \<and> (\<forall>s\<in>set [Src7k, SrcGeckoTerminal, SrcDexScreener, SrcCoinGecko].
             \<not> isValidPrice (nullable (adapter aftermath_other_key_world s ?t)))
       \<and> aftermath_fetch aftermath_other_key_world 0 ?t =
           Returns (Response True (Returns (Some ((?o, Obj [(''price'', Number (Num 7))]) # []))))
       \<and> map_of ((?o, Obj [(''price'', Number (Num 7))]) # []) ?t = None
       \<and> ?t \<notin> set object_prototype_names
       \<and> isValidPrice (Number (Num 7))"
    using own valid
    by (simp add: f)
       (simp add: aftermath_other_key_world_def quiet_world_update_adapters quiet_world_adapters
          isValidPrice_def)
  have b1: "getCachedPrice batch_other_key_world Map.empty ?t = None \<and> ?t \<noteq> ''0x2::sui::SUI''
       \<and> (\<forall>s\<in>set [Src7k, SrcGeckoTerminal, SrcDexScreener, SrcCoinGecko, SrcAftermath, SrcHop].
             \<not> isValidPrice (nullable (adapter batch_other_key_world s ?t)))
       \<and> sdk_getTokenPrices batch_other_key_world [?t] = Returns (Some ((?o, Number (Num 9)) # []))
       \<and> map_of ((?o, Number (Num 9)) # []) ?t = None
       \<and> ?t \<notin> set object_prototype_names
       \<and> isValidPrice (Number (Num 9))"
    using own valid
    by (simp add: f)
       (simp add: batch_other_key_world_def quiet_world_update_adapters quiet_world_adapters
          isValidPrice_def)
  have c1: "map_of [(?o, Number (Num 9))] ''toString'' = None
            \<and> ''toString'' \<in> set object_prototype_names"
    using own by simp
  from first_key_fallback
         [of ?o "Obj [(''price'', Number (Num 7))]" "[]" ?t _ aftermath_other_key_world Map.empty "Num 7"] a1
  have one: "getTokenPrice aftermath_other_key_world Map.empty ?t =
           \<lparr>ret = Some (Num 7), store = setCachedPrice aftermath_other_key_world Map.empty ?t (Num 7),
            calls = map (\<lambda>s. (s, ?t))
                      [Src7k, SrcGeckoTerminal, SrcDexScreener, SrcCoinGecko, SrcAftermath],
            puts = [cache_row aftermath_other_key_world ?t (Num 7)]\<rparr>"
    by blast
  from first_key_fallback
         [of ?o "Number (Num 9)" "[]" ?t _ batch_other_key_world Map.empty "Num 9"] b1
  have two: "getTokenPrice batch_other_key_world Map.empty ?t =
           \<lparr>ret = Some (Num 9), store = setCachedPrice batch_other_key_world Map.empty ?t (Num 9),
            calls = map (\<lambda>s. (s, ?t))
                      [Src7k, SrcGeckoTerminal, SrcDexScreener, SrcCoinGecko, SrcAftermath,
                       SrcHop, Src7kBatch],
            puts = [cache_row batch_other_key_world ?t (Num 9)]\<rparr>"
    by blast
  from first_key_fallback [of _ _ _ "''toString''" "[(?o, Number (Num 9))]"] c1
  have three: "batchCandidate [(?o, Number (Num 9))] ''toString'' = Builtin"
    by blast
  show ?thesis
    by (simp add: one two three setCachedPrice_def saveToken_def cache_row_def f)
qed

text \<open>
  Claim C10 as stated fails: for the identifier \<open>constructor\<close> the response object
  has no entry keyed by the identifier and its first key carries the valid price 7 (9 in
  the batch map), but the property read finds the member inherited from
  \<open>Object.prototype\<close>, so neither adapter takes the first key's value and
  \<open>getTokenPrice\<close> returns \<open>null\<close> and writes nothing.
\<close>

theorem inherited_member_blocks_fallback_counterexample:
  "map_of [(''0xfff::other::OTHER'', Obj [(''price'', Number (Num 7))])] ''constructor'' = None
   \<and> aftermath_fetch aftermath_other_key_world 0 ''constructor'' =
       Returns (Response True
         (Returns (Some [(''0xfff::other::OTHER'', Obj [(''price'', Number (Num 7))])])))
   \<and> getAftermathPrice aftermath_other_key_world ''constructor'' = None
   \<and> sdk_getTokenPrices batch_other_key_world [''constructor''] =
       Returns (Some [(''0xfff::other::OTHER'', Number (Num 9))])
   \<and> get7kBatchPrice batch_other_key_world ''constructor'' = None
   \<and> getTokenPrice aftermath_other_key_world Map.empty ''constructor'' =
       \<lparr>ret = None, store = Map.empty,
        calls = map (\<lambda>s. (s, ''constructor''))
                  [Src7k, SrcGeckoTerminal, SrcDexScreener, SrcCoinGecko, SrcAftermath, SrcHop,
                   Src7kBatch, SrcDexScreenerViaSui],
        puts = []\<rparr>"
proof -
  note f = other_key_world_facts
  have am: "getAftermathPrice aftermath_other_key_world ''constructor'' = None"
    by (simp add: getAftermathPrice_ok [OF f(7)] aftermathCandidate_def js_or_def
          get_prop_opt_def get_prop_def object_prototype_names_def valid_or_null_def
          isValidPrice_def)
  have ba: "get7kBatchPrice batch_other_key_world ''constructor'' = None"
    by (simp add: get7kBatchPrice_def f(8) batchCandidate_def js_or_def get_prop_def
          object_prototype_names_def valid_or_null_def isValidPrice_def)
  have miss: "getCachedPrice aftermath_other_key_world Map.empty ''constructor'' = None"
    by (rule f)
  have ne: "''constructor'' \<noteq> ''0x2::sui::SUI''" by simp
  have others:
    "get7kPrice aftermath_other_key_world ''constructor'' = None"
    "getGeckoTerminalPrice aftermath_other_key_world ''constructor'' = None"
    "getDexScreenerPrice aftermath_other_key_world ''constructor'' = None"
    "getCoinGeckoPrice aftermath_other_key_world ''constructor'' = None"
    "getHopAggregatorPrice aftermath_other_key_world ''constructor'' = None"
    "get7kBatchPrice aftermath_other_key_world ''constructor'' = None"
    "getDexScreenerViaSuiPrice aftermath_other_key_world ''constructor'' = None"
    by (simp_all add: aftermath_other_key_world_def quiet_world_update_adapters
          quiet_world_adapters)
  have "getTokenPrice aftermath_other_key_world Map.empty ''constructor'' =
          resolved aftermath_other_key_world Map.empty ''constructor''
            (None, map (\<lambda>s. (s, ''constructor''))
                  [Src7k, SrcGeckoTerminal, SrcDexScreener, SrcCoinGecko, SrcAftermath, SrcHop,
                   Src7kBatch, SrcDexScreenerViaSui])"
    by (simp add: getTokenPrice_miss_generic [OF miss ne] chain_of_def code_policy_order_def
          am others isValidPrice_def)
  then have gt: "getTokenPrice aftermath_other_key_world Map.empty ''constructor'' =
       \<lparr>ret = None, store = Map.empty,
        calls = map (\<lambda>s. (s, ''constructor''))
                  [Src7k, SrcGeckoTerminal, SrcDexScreener, SrcCoinGecko, SrcAftermath, SrcHop,
                   Src7kBatch, SrcDexScreenerViaSui],
        puts = []\<rparr>"
    by (simp add: resolved_def)
  show ?thesis
    using am ba gt by (simp add: f)
qed

lemma positive_cases: "js_gt l (Num 0) \<Longrightarrow> (\<exists>r. l = Num r \<and> 0 < r) \<or> l = PosInf"
  by (cases l) simp_all

lemma positive_difference:
  "js_gt a (Num 0) \<Longrightarrow> js_gt b (Num 0) \<Longrightarrow> js_gt (js_sub b a) (Num 0) = js_gt b a"
  by (cases a; cases b) simp_all

lemma js_gt_asym: "js_gt b a \<Longrightarrow> \<not> js_gt a b"
  by (cases a; cases b) simp_all

lemma js_gt_not_trans:
  "js_gt a (Num 0) \<Longrightarrow> js_gt b (Num 0) \<Longrightarrow> js_gt c (Num 0) \<Longrightarrow>
   \<not> js_gt a b \<Longrightarrow> \<not> js_gt b c \<Longrightarrow> \<not> js_gt a c"
  by (cases a; cases b; cases c) simp_all

lemma has_liquidity_positive: "has_liquidity p \<Longrightarrow> js_gt (liquidity_of p) (Num 0)"
  by (simp add: has_liquidity_def liquidity_of_def split: option.splits)

lemma by_liquidity_desc_positive:
  "has_liquidity x \<Longrightarrow> has_liquidity y \<Longrightarrow>
   js_gt (by_liquidity_desc x y) (Num 0) = js_gt (liquidity_of y) (liquidity_of x)"
  by (simp add: by_liquidity_desc_def positive_difference has_liquidity_positive)

lemma array_sort_Cons: "array_sort cmp (x # xs) = insert_by cmp x (array_sort cmp xs)"
  by (simp add: array_sort_def)

lemma array_sort_head_highest:
  "xs \<noteq> [] \<Longrightarrow> \<forall>p\<in>set xs. has_liquidity p \<Longrightarrow>
   \<exists>best rest. array_sort by_liquidity_desc xs = best # rest \<and> best \<in> set xs \<and>
     (\<forall>p\<in>set xs. \<not> js_gt (liquidity_of p) (liquidity_of best))"
proof (induction xs)
  case Nil
  then show ?case by simp
next
  case (Cons x xs)
  have hx: "has_liquidity x" using Cons.prems by simp
  have xx: "\<not> js_gt (liquidity_of x) (liquidity_of x)"
    using js_gt_asym by blast
  show ?case
  proof (cases "xs = []")
    case True
    then show ?thesis using xx by (simp add: array_sort_def)
  next
    case False
    with Cons obtain best rest where
      s: "array_sort by_liquidity_desc xs = best # rest" and
      mem: "best \<in> set xs" and
      top: "\<forall>p\<in>set xs. \<not> js_gt (liquidity_of p) (liquidity_of best)"
      by auto
    have hb: "has_liquidity best" using mem Cons.prems by simp
    show ?thesis
    proof (cases "js_gt (liquidity_of best) (liquidity_of x)")
      case True
      then have "array_sort by_liquidity_desc (x # xs) = best # insert_by by_liquidity_desc x rest"
        by (simp add: array_sort_Cons s by_liquidity_desc_positive [OF hx hb])
      moreover have "\<not> js_gt (liquidity_of x) (liquidity_of best)"
        using True by (rule js_gt_asym)
      ultimately show ?thesis using mem top by simp
    next
      case False
      then have "array_sort by_liquidity_desc (x # xs) = x # best # rest"
        by (simp add: array_sort_Cons s by_liquidity_desc_positive [OF hx hb])
      moreover have "\<forall>p\<in>set xs. \<not> js_gt (liquidity_of p) (liquidity_of x)"
      proof
        fix p assume p: "p \<in> set xs"
        with Cons.prems have hp: "has_liquidity p" by simp
        from top p have "\<not> js_gt (liquidity_of p) (liquidity_of best)" by simp
        with False show "\<not> js_gt (liquidity_of p) (liquidity_of x)"
          using js_gt_not_trans [OF has_liquidity_positive [OF hp]
                  has_liquidity_positive [OF hb] has_liquidity_positive [OF hx]]
          by blast
      qed
      ultimately show ?thesis using xx by simp
    qed
  qed
qed

lemma dexScreenerSelect_none:
  "filter has_liquidity (filter on_sui_chain ps) = [] \<Longrightarrow> dexScreenerSelect w ps = Returns None"
  by (simp add: dexScreenerSelect_def)

lemma dexScreenerSelect_best:
  assumes ne: "filter has_liquidity (filter on_sui_chain ps) \<noteq> []"
  shows "\<exists>best\<in>set ps. on_sui_chain best \<and> has_liquidity best \<and>
           (\<forall>p\<in>set ps. on_sui_chain p \<and> has_liquidity p \<longrightarrow>
              \<not> js_gt (liquidity_of p) (liquidity_of best)) \<and>
           dexScreenerSelect w ps = Returns (valid_or_null (Number (js_Number w (priceUsd best))))"
proof -
  let ?c = "filter has_liquidity (filter on_sui_chain ps)"
  have all: "\<forall>p\<in>set ?c. has_liquidity p" by simp
  from array_sort_head_highest [OF ne all] obtain best rest where
    s: "array_sort by_liquidity_desc ?c = best # rest" and
    mem: "best \<in> set ?c" and
    top: "\<forall>p\<in>set ?c. \<not> js_gt (liquidity_of p) (liquidity_of best)"
    by blast
  have "dexScreenerSelect w ps = Returns (valid_or_null (Number (js_Number w (priceUsd best))))"
    using ne s by (simp add: dexScreenerSelect_def Let_def)
  with mem top show ?thesis by auto
qed

lemma getDexScreenerPrice_first_attempt:
  "dexScreenerOperation w tokenType 0 = Returns r \<Longrightarrow> getDexScreenerPrice w tokenType = r"
  by (simp add: getDexScreenerPrice_def retryOperation_default_def retryOperation_def
        retry_loop_returns)

text \<open>
  Claim C7 (as amended). The pair-search adapter queries DexScreener by the full
  identifier and, when that response carries no pairs, by the contract address only. From
  the returned pairs it keeps those on the expected network (or with no network tag) that
  have strictly positive liquidity, takes one of highest liquidity among them and returns
  its price if that price is valid. When no pair passes the filter the operation returns
  \<open>null\<close>: the other pairs are not scanned for a usable price.
\<close>

theorem dexscreener_pair_search:
  "(dexscreener_fetch w k 0 tokenType = Returns (Response True (Returns \<lparr>pairs = Some ps\<rparr>))
      \<and> ps \<noteq> [] \<longrightarrow>
        dexScreenerOperation w tokenType k = dexScreenerSelect w ps)
   \<and> (dexscreener_fetch w k 0 tokenType = Returns (Response True (Returns data))
       \<and> no_pairs data
       \<and> dexscreener_fetch w k 1 (extractContractAddress tokenType) =
           Returns (Response True (Returns \<lparr>pairs = Some ps\<rparr>))
       \<and> ps \<noteq> [] \<longrightarrow>
        dexScreenerOperation w tokenType k = dexScreenerSelect w ps)
   \<and> (filter has_liquidity (filter on_sui_chain ps) = [] \<longrightarrow>
        dexScreenerSelect w ps = Returns None)
   \<and> (filter has_liquidity (filter on_sui_chain ps) \<noteq> [] \<longrightarrow>
        (\<exists>best\<in>set ps. on_sui_chain best \<and> has_liquidity best \<and>
           (\<forall>p\<in>set ps. on_sui_chain p \<and> has_liquidity p \<longrightarrow>
              \<not> js_gt (liquidity_of p) (liquidity_of best)) \<and>
           dexScreenerSelect w ps = Returns (valid_or_null (Number (js_Number w (priceUsd best))))))
   \<and> (dexScreenerOperation w tokenType 0 = Returns r \<longrightarrow> getDexScreenerPrice w tokenType = r)"
proof (intro conjI impI)
  assume "dexscreener_fetch w k 0 tokenType = Returns (Response True (Returns \<lparr>pairs = Some ps\<rparr>))
      \<and> ps \<noteq> []"
  then show "dexScreenerOperation w tokenType k = dexScreenerSelect w ps"
    by (simp add: dexScreenerOperation_def no_pairs_def)
next
  assume "dexscreener_fetch w k 0 tokenType = Returns (Response True (Returns data))
       \<and> no_pairs data
       \<and> dexscreener_fetch w k 1 (extractContractAddress tokenType) =
           Returns (Response True (Returns \<lparr>pairs = Some ps\<rparr>))
       \<and> ps \<noteq> []"
  then show "dexScreenerOperation w tokenType k = dexScreenerSelect w ps"
    by (simp add: dexScreenerOperation_def)
next
  assume "filter has_liquidity (filter on_sui_chain ps) = []"
  then show "dexScreenerSelect w ps = Returns None" by (rule dexScreenerSelect_none)
next
  assume "filter has_liquidity (filter on_sui_chain ps) \<noteq> []"
  then show "\<exists>best\<in>set ps. on_sui_chain best \<and> has_liquidity best \<and>
           (\<forall>p\<in>set ps. on_sui_chain p \<and> has_liquidity p \<longrightarrow>
              \<not> js_gt (liquidity_of p) (liquidity_of best)) \<and>
           dexScreenerSelect w ps = Returns (valid_or_null (Number (js_Number w (priceUsd best))))"
    by (rule dexScreenerSelect_best)
next
  assume "dexScreenerOperation w tokenType 0 = Returns r"
  then show "getDexScreenerPrice w tokenType = r" by (rule getDexScreenerPrice_first_attempt)
qed

lemma pair_facts:
  "on_sui_chain pair_low" "on_sui_chain pair_high" "\<not> on_sui_chain pair_elsewhere"
  "has_liquidity pair_low" "has_liquidity pair_high" "has_liquidity pair_elsewhere"
  "liquidity_of pair_low = Num 1000" "liquidity_of pair_high = Num 5000"
  "priceUsd pair_low = ''1.5''" "priceUsd pair_high = ''2.5''" "priceUsd pair_elsewhere = ''2.5''"
  "pair_low \<noteq> pair_high"
  by (simp_all add: pair_low_def pair_high_def pair_elsewhere_def on_sui_chain_def
        has_liquidity_def liquidity_of_def)

lemma select_two_pairs:
  "js_Number w = read_decimal \<Longrightarrow> dexScreenerSelect w [pair_low, pair_high] = Returns (Some (Num 2.5))"
  "js_Number w = read_decimal \<Longrightarrow> dexScreenerSelect w [pair_high, pair_low] = Returns (Some (Num 2.5))"
  by (simp_all add: dexScreenerSelect_def pair_facts array_sort_def by_liquidity_desc_def
        read_decimal_def valid_or_null_def isValidPrice_def js_isNaN_def js_isFinite_def)

theorem dexscreener_pair_search_witness:
  "getDexScreenerPrice two_pairs_world ''0xabc::mod::TOK'' = Some (Num 2.5)
   \<and> getDexScreenerPrice contract_only_world ''0xabc::mod::TOK'' = Some (Num 2.5)
   \<and> dexScreenerSelect elsewhere_world [pair_elsewhere] = Returns None"
proof -
  let ?t = "''0xabc::mod::TOK''"
  have n1: "js_Number two_pairs_world = read_decimal"
    and n2: "js_Number contract_only_world = read_decimal"
    by (simp_all add: two_pairs_world_def contract_only_world_def quiet_world_def)
  have f1: "dexscreener_fetch two_pairs_world 0 0 ?t =
              Returns (Response True (Returns \<lparr>pairs = Some [pair_low, pair_high]\<rparr>))
            \<and> [pair_low, pair_high] \<noteq> []"
    by (simp add: two_pairs_world_def quiet_world_def)
  have f2: "dexscreener_fetch contract_only_world 0 0 ?t =
              Returns (Response True (Returns \<lparr>pairs = None\<rparr>))
            \<and> no_pairs \<lparr>pairs = None\<rparr>
            \<and> dexscreener_fetch contract_only_world 0 1 (extractContractAddress ?t) =
                Returns (Response True (Returns \<lparr>pairs = Some [pair_high, pair_low]\<rparr>))
            \<and> [pair_high, pair_low] \<noteq> []"
    by (simp add: contract_only_world_def quiet_world_def no_pairs_def extractContractAddress_def)
  have f3: "filter has_liquidity (filter on_sui_chain [pair_elsewhere]) = []"
    by (simp add: pair_facts)
  from dexscreener_pair_search [of two_pairs_world 0 ?t "[pair_low, pair_high]"] f1
  have "dexScreenerOperation two_pairs_world ?t 0 = Returns (Some (Num 2.5))"
    by (simp add: select_two_pairs [OF n1])
  with dexscreener_pair_search [of two_pairs_world 0 ?t "[pair_low, pair_high]" _ "Some (Num 2.5)"]
  have one: "getDexScreenerPrice two_pairs_world ?t = Some (Num 2.5)" by blast
  from dexscreener_pair_search
         [of contract_only_world 0 ?t "[pair_high, pair_low]" "\<lparr>pairs = None\<rparr>"] f2
  have "dexScreenerOperation contract_only_world ?t 0 = Returns (Some (Num 2.5))"
    by (simp add: select_two_pairs [OF n2])
  with dexscreener_pair_search
         [of contract_only_world 0 ?t "[pair_high, pair_low]" _ "Some (Num 2.5)"]
  have two: "getDexScreenerPrice contract_only_world ?t = Some (Num 2.5)" by blast
  from dexscreener_pair_search [of elsewhere_world 0 ?t "[pair_elsewhere]"] f3
  have three: "dexScreenerSelect elsewhere_world [pair_elsewhere] = Returns None" by blast
  from one two three show ?thesis by blast
qed

text \<open>
  Claim C7 as stated fails in its last part: when the only returned pair is on another
  network, no pair passes the filter; scanning all returned pairs would find its usable
  price 2.5, but the adapter returns \<open>null\<close>.
\<close>

theorem no_scan_after_filter_counterexample:
  "spec_pair_search elsewhere_world [pair_elsewhere] = Some (Num 2.5)
   \<and> dexScreenerOperation elsewhere_world ''0xabc::mod::TOK'' 0 = Returns None
   \<and> getDexScreenerPrice elsewhere_world ''0xabc::mod::TOK'' = None"
proof -
  have n: "js_Number elsewhere_world = read_decimal"
    and f: "dexscreener_fetch elsewhere_world 0 0 ''0xabc::mod::TOK'' =
              Returns (Response True (Returns \<lparr>pairs = Some [pair_elsewhere]\<rparr>))"
    by (simp_all add: elsewhere_world_def quiet_world_def)
  have a: "spec_pair_search elsewhere_world [pair_elsewhere] = Some (Num 2.5)"
    by (simp add: spec_pair_search_def n pair_facts read_decimal_def isValidPrice_def
          js_isNaN_def js_isFinite_def)
  have b: "dexScreenerOperation elsewhere_world ''0xabc::mod::TOK'' 0 = Returns None"
    by (simp add: dexScreenerOperation_def f no_pairs_def dexScreenerSelect_def pair_facts)
  from b have c: "getDexScreenerPrice elsewhere_world ''0xabc::mod::TOK'' = None"
    by (rule getDexScreenerPrice_first_attempt)
  from a b c show ?thesis by blast
qed

end
